theory Spec2Isabelle
  imports Main "HOL-Library.Word"
begin

unbundle bit_operations_syntax

section \<open>Machine types\<close>

text \<open>
  Modelled from the spec: the integer types of \<^verbatim>\<open>sst_types.h\<close>, which is not among the
  sources. \<^verbatim>\<open>activity.h\<close> stores \<^verbatim>\<open>SimTime_t\<close> beside \<^verbatim>\<open>uint64_t\<close> fields and the
  specification gives every time and the latency as unsigned 64-bit quantities, so
  \<^verbatim>\<open>SimTime_t\<close> and \<^verbatim>\<open>Cycle_t\<close> are 64-bit words; \<^verbatim>\<open>uintptr_t\<close> is the pointer-sized word
  of a 64-bit target. Arithmetic on them wraps around.
\<close>

type_synonym SimTime_t = "64 word"
type_synonym Cycle_t = "64 word"
type_synonym uintptr_t = "64 word"

section \<open>Activity (activity.h)\<close>

record Activity =
  delivery_time :: SimTime_t
  priority_order :: "64 word"
  queue_order :: "64 word"

text \<open>The constructor \<^verbatim>\<open>Activity()\<close> zeroes the three fields.\<close>

definition Activity_ctor :: Activity where
  "Activity_ctor = \<lparr>delivery_time = 0, priority_order = 0, queue_order = 0\<rparr>"

text \<open>
  \<^verbatim>\<open>Activity::less<T,P,Q>::operator()\<close> and \<^verbatim>\<open>Activity::greater<T,P,Q>::operator()\<close>.
  The template parameters become arguments. (The names \<open>less\<close> and \<open>greater\<close> belong to
  the order classes of HOL.)
\<close>

definition Activity_less ::
  "bool \<Rightarrow> bool \<Rightarrow> bool \<Rightarrow> 'a Activity_scheme \<Rightarrow> 'b Activity_scheme \<Rightarrow> bool" where
  "Activity_less T P Q lhs rhs =
     (if T \<and> delivery_time lhs \<noteq> delivery_time rhs then delivery_time lhs < delivery_time rhs
      else if P \<and> priority_order lhs \<noteq> priority_order rhs
        then priority_order lhs < priority_order rhs
      else Q \<and> queue_order lhs < queue_order rhs)"

definition Activity_greater ::
  "bool \<Rightarrow> bool \<Rightarrow> bool \<Rightarrow> 'a Activity_scheme \<Rightarrow> 'b Activity_scheme \<Rightarrow> bool" where
  "Activity_greater T P Q lhs rhs =
     (if T \<and> delivery_time lhs \<noteq> delivery_time rhs then delivery_time lhs > delivery_time rhs
      else if P \<and> priority_order lhs \<noteq> priority_order rhs
        then priority_order lhs > priority_order rhs
      else Q \<and> queue_order lhs > queue_order rhs)"

definition setDeliveryTime :: "SimTime_t \<Rightarrow> 'a Activity_scheme \<Rightarrow> 'a Activity_scheme" where
  "setDeliveryTime time a = a\<lparr>delivery_time := time\<rparr>"

definition getDeliveryTime :: "'a Activity_scheme \<Rightarrow> SimTime_t" where
  "getDeliveryTime a = delivery_time a"

text \<open>
  \<^verbatim>\<open>getPriority\<close> returns \<^verbatim>\<open>(int)(priority_order >> 32)\<close>: the 32-bit pattern of the
  upper half, which \<open>sint\<close> reads as the C \<^verbatim>\<open>int\<close>.
\<close>

definition getPriority :: "'a Activity_scheme \<Rightarrow> 32 word" where
  "getPriority a = ucast (drop_bit 32 (priority_order a))"

definition setOrderTag :: "32 word \<Rightarrow> 'a Activity_scheme \<Rightarrow> 'a Activity_scheme" where
  "setOrderTag tg a =
     a\<lparr>priority_order := (priority_order a AND 0xFFFFFFFF00000000) OR ucast tg\<rparr>"

definition getOrderTag :: "'a Activity_scheme \<Rightarrow> 32 word" where
  "getOrderTag a = ucast (priority_order a AND 0xFFFFFFFF)"

definition getQueueOrder :: "'a Activity_scheme \<Rightarrow> 64 word" where
  "getQueueOrder a = queue_order a"

definition setPriority :: "64 word \<Rightarrow> 'a Activity_scheme \<Rightarrow> 'a Activity_scheme" where
  "setPriority priority a =
     a\<lparr>priority_order := (priority_order a AND 0x00000000FFFFFFFF) OR push_bit 32 priority\<rparr>"

definition setQueueOrder :: "64 word \<Rightarrow> 'a Activity_scheme \<Rightarrow> 'a Activity_scheme" where
  "setQueueOrder order a = a\<lparr>queue_order := order\<rparr>"

text \<open>
  The ordering as the specification words it: the triple
  \<open>(delivery_time, priority_order, queue_order)\<close> compared lexicographically, and, for the
  parameterised comparator, the same comparison on the selected fields only.
\<close>

definition triple_lex_less :: "64 word \<times> 64 word \<times> 64 word \<Rightarrow> 64 word \<times> 64 word \<times> 64 word \<Rightarrow> bool" where
  "triple_lex_less x y =
     (case x of (t1, p1, q1) \<Rightarrow> case y of (t2, p2, q2) \<Rightarrow>
        t1 < t2 \<or> (t1 = t2 \<and> (p1 < p2 \<or> (p1 = p2 \<and> q1 < q2))))"

definition order_triple :: "'a Activity_scheme \<Rightarrow> 64 word \<times> 64 word \<times> 64 word" where
  "order_triple a = (delivery_time a, priority_order a, queue_order a)"

definition selected_triple ::
  "bool \<Rightarrow> bool \<Rightarrow> bool \<Rightarrow> 'a Activity_scheme \<Rightarrow> 64 word \<times> 64 word \<times> 64 word" where
  "selected_triple T P Q a =
     (if T then delivery_time a else 0, if P then priority_order a else 0,
      if Q then queue_order a else 0)"


section \<open>Event (event.h)\<close>

text \<open>
  An event is an activity with the \<^verbatim>\<open>delivery_info\<close> word. \<^verbatim>\<open>NullEvent\<close> (link.cc) is the
  subclass that overrides \<^verbatim>\<open>execute\<close>; the flag \<open>null_event\<close> records the dynamic class.
  The event-tracking fields exist only under \<^verbatim>\<open>__SST_DEBUG_EVENT_TRACKING__\<close> and are left
  out.
\<close>

record Event = Activity +
  delivery_info :: uintptr_t
  null_event :: bool

definition EVENTPRIORITY :: "64 word" where
  "EVENTPRIORITY = 50"

text \<open>\<^verbatim>\<open>Event() : Activity(), delivery_info(0) { setPriority(EVENTPRIORITY); }\<close>\<close>

definition Event_ctor :: Event where
  "Event_ctor =
     setPriority EVENTPRIORITY
       \<lparr>delivery_time = 0, priority_order = 0, queue_order = 0,
        delivery_info = 0, null_event = False\<rparr>"

definition NullEvent_ctor :: Event where
  "NullEvent_ctor = Event_ctor\<lparr>null_event := True\<rparr>"

text \<open>
  \<^verbatim>\<open>setDeliveryInfo(LinkId_t tag, uintptr_t delivery_info)\<close> passes the tag to
  \<^verbatim>\<open>setOrderTag(uint32_t)\<close>. \<^verbatim>\<open>LinkId_t\<close> is declared in \<^verbatim>\<open>sst_types.h\<close>, which is not
  among the sources, so its width is a parameter \<open>'t\<close>; the implicit conversion to
  \<^verbatim>\<open>uint32_t\<close> keeps the low 32 bits (\<open>ucast\<close>).
\<close>

definition setDeliveryInfo :: "'t::len word \<Rightarrow> uintptr_t \<Rightarrow> Event \<Rightarrow> Event" where
  "setDeliveryInfo tg info e = (setOrderTag (ucast tg) e)\<lparr>delivery_info := info\<rparr>"

definition getTag :: "Event \<Rightarrow> 't::len word" where
  "getTag e = ucast (getOrderTag e)"

section \<open>The store\<close>

text \<open>
  Links, queues and events are heap objects that refer to each other by pointer, and a
  link may be its own pair, so the model keeps an explicit store. A heap is a list of
  cells; an address is an index; a freed cell holds \<open>None\<close>; \<^verbatim>\<open>new\<close> appends a cell, so a
  new address differs from every address handed out before. A nullable pointer is an
  \<open>addr option\<close>.
\<close>

type_synonym addr = nat

definition heap_get :: "'a option list \<Rightarrow> addr \<Rightarrow> 'a option" where
  "heap_get h a = (if a < length h then h ! a else None)"

definition heap_set :: "addr \<Rightarrow> 'a \<Rightarrow> 'a option list \<Rightarrow> 'a option list" where
  "heap_set a v h = h[a := Some v]"

definition heap_new :: "'a \<Rightarrow> 'a option list \<Rightarrow> addr \<times> 'a option list" where
  "heap_new v h = (length h, h @ [Some v])"

definition heap_free :: "addr \<Rightarrow> 'a option list \<Rightarrow> 'a option list" where
  "heap_free a h = h[a := None]"

text \<open>
  What the C++ leaves undefined (a null or dangling pointer dereferenced or deleted) and
  what it reports through \<^verbatim>\<open>Output::fatal\<close> are both results of the model.

  Modelled from the spec: \<^verbatim>\<open>Output::fatal\<close> (output.h is not among the sources). The
  specification's error policy is that a fatal error terminates the process, so a call of
  \<^verbatim>\<open>fatal\<close> ends the function with the state as it is at the call. The constructors name
  the call sites of link.cc; \<open>SchedulingViolation\<close> is the report of a queue that is given
  an activity to insert whose delivery time has passed (the specification's fourth error
  kind).
\<close>

datatype fatal_call =
    SendRecvDuringInit
  | SendRecvDuringComplete
  | RecvOnNonPollingLink
  | UntimedDataDuringRun
  | SetFunctorOnPollingLink
  | SchedulingViolation

datatype error = Fatal fatal_call | NullPointer | InvalidPointer | EmptyQueue

section \<open>Link: the record (link.cc)\<close>

text \<open>
  Modelled from the spec: the declaration of the class (link.h is not among the sources).
  The fields are those the constructors of link.cc initialise, the enumerations those
  link.cc names. The field \<^verbatim>\<open>delivery_info\<close> is \<open>link_delivery_info\<close> here, since the event
  record has a field of that name too. \<^verbatim>\<open>current_time\<close> is, as the specification has it, a
  reference to the simulation's \<^verbatim>\<open>currentSimCycle\<close>, so it is read from the simulation
  state and is no field here. \<^verbatim>\<open>profile_tools\<close> is the nullable pointer to the list of
  (tool, key) pairs. The width of \<^verbatim>\<open>LinkId_t\<close> is the parameter \<open>'t\<close>.
\<close>

datatype Type_t = UNINITIALIZED | HANDLER | POLL | SYNC

datatype Mode_t = INIT | RUN | COMPLETE

record (overloaded) 't Link =
  send_queue :: "addr option"
  link_delivery_info :: uintptr_t
  defaultTimeBase :: SimTime_t
  latency :: Cycle_t
  pair_link :: "addr option"
  type :: Type_t
  mode :: Mode_t
  tag :: "'t word"
  profile_tools :: "(addr \<times> uintptr_t) list option"

text \<open>\<^verbatim>\<open>Link::Link(LinkId_t tag)\<close> and \<^verbatim>\<open>Link::Link()\<close>.\<close>

definition Link_ctor :: "'t::len word \<Rightarrow> 't Link" where
  "Link_ctor tg =
     \<lparr>send_queue = None, link_delivery_info = 0, defaultTimeBase = 0, latency = 1,
      pair_link = None, type = UNINITIALIZED, mode = INIT, tag = tg, profile_tools = None\<rparr>"

definition Link_default_ctor :: "'t::len Link" where
  "Link_default_ctor =
     \<lparr>send_queue = None, link_delivery_info = 0, defaultTimeBase = 0, latency = 1,
      pair_link = None, type = UNINITIALIZED, mode = INIT, tag = - 1, profile_tools = None\<rparr>"

section \<open>The queue family\<close>

text \<open>
  Modelled from the spec: \<^verbatim>\<open>TimeVortex\<close>, \<^verbatim>\<open>PollingLinkQueue\<close> and \<^verbatim>\<open>InitQueue\<close>
  (timeVortex.h, pollingLinkQueue.h and initQueue.h are not among the sources). The three
  share the contract \<^verbatim>\<open>insert\<close>, \<^verbatim>\<open>front\<close>, \<^verbatim>\<open>pop\<close>, \<^verbatim>\<open>empty\<close>. A queue holds activity pointers,
  front first.
  \<^item> The time vortex is ordered by the comparator \<open>(true, true, true)\<close>; it gives the
    inserted activity its \<^verbatim>\<open>queue_order\<close> from an insertion counter and does not admit
    an activity object that it already holds.
  \<^item> The polling queue and the init queue keep insertion order: \<^verbatim>\<open>insert\<close> appends to the
    tail. The guards \<open>delivery_time \<le> now\<close> and \<open>delivery_time \<le> untimed_phase\<close> that the
    specification attaches to them are applied by their callers \<^verbatim>\<open>Link::recv\<close> and
    \<^verbatim>\<open>Link::recvUntimedData\<close>, where link.cc has them.
  \<^item> \<^verbatim>\<open>insert\<close> detects and reports a scheduling violation, which is fatal: the time
    vortex and the polling queue refuse an activity whose delivery time is before the
    current simulated time, and the init queue admits only a delivery time that is a
    phase number \<open>p \<ge> untimed_phase\<close>. \<open>admission_time\<close> is the time that a queue of a
    given kind compares with.
  \<^verbatim>\<open>front\<close> and \<^verbatim>\<open>pop\<close> on an empty queue are undefined; the callers in link.cc test
  \<^verbatim>\<open>empty\<close> first.
\<close>

datatype QueueKind = TimeVortex | PollingLinkQueue | InitQueue

record ActivityQueue =
  kind :: QueueKind
  items :: "addr list"
  insert_count :: "64 word"

definition PollingLinkQueue_ctor :: ActivityQueue where
  "PollingLinkQueue_ctor = \<lparr>kind = PollingLinkQueue, items = [], insert_count = 0\<rparr>"

definition InitQueue_ctor :: ActivityQueue where
  "InitQueue_ctor = \<lparr>kind = InitQueue, items = [], insert_count = 0\<rparr>"

definition TimeVortex_ctor :: ActivityQueue where
  "TimeVortex_ctor = \<lparr>kind = TimeVortex, items = [], insert_count = 0\<rparr>"

section \<open>The simulation state\<close>

text \<open>
  Modelled from the spec: the \<^verbatim>\<open>Simulation_impl\<close> singleton (simulation_impl.h is not
  among the sources), which exposes \<^verbatim>\<open>currentSimCycle\<close>, \<^verbatim>\<open>untimed_phase\<close>,
  \<^verbatim>\<open>untimed_msg_count\<close> and the rank's shared time vortex. The two untimed counters are
  taken as unsigned 64-bit words, like the delivery times they are compared with. The
  three heaps are the store. \<open>profile_log\<close> records the notifications
  \<^verbatim>\<open>eventSent(key, ev)\<close> received by the profile tools, which are outside the core.
\<close>

record (overloaded) 't Simulation_impl =
  currentSimCycle :: SimTime_t
  untimed_phase :: "64 word"
  untimed_msg_count :: "64 word"
  timeVortex :: "addr option"
  links :: "'t Link option list"
  queues :: "ActivityQueue option list"
  events :: "Event option list"
  profile_log :: "(addr \<times> uintptr_t \<times> addr) list"

definition getTimeVortex :: "'t::len Simulation_impl \<Rightarrow> addr option" where
  "getTimeVortex s = timeVortex s"

definition getCurrentSimCycle :: "'t::len Simulation_impl \<Rightarrow> SimTime_t" where
  "getCurrentSimCycle s = currentSimCycle s"

definition admission_time :: "QueueKind \<Rightarrow> 't::len Simulation_impl \<Rightarrow> SimTime_t" where
  "admission_time k s =
     (case k of
        TimeVortex \<Rightarrow> currentSimCycle s
      | PollingLinkQueue \<Rightarrow> currentSimCycle s
      | InitQueue \<Rightarrow> untimed_phase s)"

definition upd_link ::
  "addr \<Rightarrow> ('t::len Link \<Rightarrow> 't Link) \<Rightarrow> 't Simulation_impl \<Rightarrow> 't Simulation_impl" where
  "upd_link a f s =
     (case heap_get (links s) a of
        None \<Rightarrow> s
      | Some L \<Rightarrow> s\<lparr>links := heap_set a (f L) (links s)\<rparr>)"

text \<open>\<^verbatim>\<open>delete p\<close> on a queue pointer: nothing for the null pointer, undefined for a dangling one.\<close>

definition delete_queue ::
  "addr option \<Rightarrow> 't::len Simulation_impl \<Rightarrow> (error + unit) \<times> 't Simulation_impl" where
  "delete_queue p s =
     (case p of
        None \<Rightarrow> (Inr (), s)
      | Some qa \<Rightarrow>
          (case heap_get (queues s) qa of
             None \<Rightarrow> (Inl InvalidPointer, s)
           | Some q \<Rightarrow> (Inr (), s\<lparr>queues := heap_free qa (queues s)\<rparr>)))"

text \<open>Reading through a nullable pointer: \<^verbatim>\<open>p->...\<close>.\<close>

definition deref :: "'a option list \<Rightarrow> addr option \<Rightarrow> error + 'a" where
  "deref h p =
     (case p of
        None \<Rightarrow> Inl NullPointer
      | Some a \<Rightarrow> (case heap_get h a of None \<Rightarrow> Inl InvalidPointer | Some v \<Rightarrow> Inr v))"

section \<open>Queue operations\<close>

fun insert_ordered :: "('a \<Rightarrow> 'a \<Rightarrow> bool) \<Rightarrow> 'a \<Rightarrow> 'a list \<Rightarrow> 'a list" where
  "insert_ordered lt x [] = [x]"
| "insert_ordered lt x (y # ys) =
     (if lt x y then x # y # ys else y # insert_ordered lt x ys)"

definition activity_before :: "Event option list \<Rightarrow> addr \<Rightarrow> addr \<Rightarrow> bool" where
  "activity_before h a b =
     (case heap_get h a of
        None \<Rightarrow> False
      | Some x \<Rightarrow>
          (case heap_get h b of
             None \<Rightarrow> False
           | Some y \<Rightarrow> Activity_less True True True x y))"

definition queue_empty :: "ActivityQueue \<Rightarrow> bool" where
  "queue_empty q = (items q = [])"

definition queue_front :: "ActivityQueue \<Rightarrow> addr option" where
  "queue_front q = (case items q of [] \<Rightarrow> None | a # _ \<Rightarrow> Some a)"

definition queue_pop ::
  "addr option \<Rightarrow> 't::len Simulation_impl \<Rightarrow> (error + unit) \<times> 't Simulation_impl" where
  "queue_pop qp s =
     (case qp of
        None \<Rightarrow> (Inl NullPointer, s)
      | Some qa \<Rightarrow>
          (case heap_get (queues s) qa of
             None \<Rightarrow> (Inl InvalidPointer, s)
           | Some q \<Rightarrow>
               (case items q of
                  [] \<Rightarrow> (Inl EmptyQueue, s)
                | a # rest \<Rightarrow> (Inr (), s\<lparr>queues := heap_set qa (q\<lparr>items := rest\<rparr>) (queues s)\<rparr>))))"

definition queue_insert ::
  "addr option \<Rightarrow> addr \<Rightarrow> 't::len Simulation_impl \<Rightarrow> (error + unit) \<times> 't Simulation_impl" where
  "queue_insert qp ev s =
     (case qp of
        None \<Rightarrow> (Inl NullPointer, s)
      | Some qa \<Rightarrow>
          (case heap_get (queues s) qa of
             None \<Rightarrow> (Inl InvalidPointer, s)
           | Some q \<Rightarrow>
               (case heap_get (events s) ev of
                  None \<Rightarrow> (Inl InvalidPointer, s)
                | Some e \<Rightarrow>
                    if delivery_time e < admission_time (kind q) s
                    then (Inl (Fatal SchedulingViolation), s)
                    else
                      (case kind q of
                         InitQueue \<Rightarrow>
                           (Inr (),
                            s\<lparr>queues := heap_set qa (q\<lparr>items := items q @ [ev]\<rparr>) (queues s)\<rparr>)
                       | PollingLinkQueue \<Rightarrow>
                           (Inr (),
                            s\<lparr>queues := heap_set qa (q\<lparr>items := items q @ [ev]\<rparr>) (queues s)\<rparr>)
                       | TimeVortex \<Rightarrow>
                           if ev \<in> set (items q) then (Inr (), s)
                           else if list_ex (\<lambda>a. heap_get (events s) a = None) (items q)
                             then (Inl InvalidPointer, s)
                           else
                             let es = heap_set ev (setQueueOrder (insert_count q) e) (events s);
                                 q' = q\<lparr>items := insert_ordered (activity_before es) ev (items q),
                                        insert_count := insert_count q + 1\<rparr>
                             in (Inr (),
                                 s\<lparr>events := es, queues := heap_set qa q' (queues s)\<rparr>)))))"

section \<open>Link: configuration (link.cc)\<close>

definition setPolling :: "addr \<Rightarrow> 't::len Simulation_impl \<Rightarrow> (error + unit) \<times> 't Simulation_impl" where
  "setPolling this s =
     (case heap_get (links s) this of
        None \<Rightarrow> (Inl InvalidPointer, s)
      | Some L \<Rightarrow> (Inr (), upd_link this (\<lambda>L. L\<lparr>type := POLL\<rparr>) s))"

definition setLatency ::
  "addr \<Rightarrow> Cycle_t \<Rightarrow> 't::len Simulation_impl \<Rightarrow> (error + unit) \<times> 't Simulation_impl" where
  "setLatency this lat s =
     (case heap_get (links s) this of
        None \<Rightarrow> (Inl InvalidPointer, s)
      | Some L \<Rightarrow> (Inr (), upd_link this (\<lambda>L. L\<lparr>latency := lat\<rparr>) s))"

text \<open>\<^verbatim>\<open>setFunctor\<close>; the handler pointer is the word it is cast to.\<close>

definition setFunctor ::
  "addr \<Rightarrow> uintptr_t \<Rightarrow> 't::len Simulation_impl \<Rightarrow> (error + unit) \<times> 't Simulation_impl" where
  "setFunctor this functor s =
     (case heap_get (links s) this of
        None \<Rightarrow> (Inl InvalidPointer, s)
      | Some L \<Rightarrow>
          if type L = POLL then (Inl (Fatal SetFunctorOnPollingLink), s)
          else
            let s1 = upd_link this (\<lambda>L. L\<lparr>type := HANDLER\<rparr>) s
            in (case pair_link L of
                  None \<Rightarrow> (Inl NullPointer, s1)
                | Some pa \<Rightarrow>
                    (case heap_get (links s1) pa of
                       None \<Rightarrow> (Inl InvalidPointer, s1)
                     | Some P \<Rightarrow>
                         (Inr (), upd_link pa (\<lambda>L. L\<lparr>link_delivery_info := functor\<rparr>) s1))))"

text \<open>
  Lines 142 to 145 of \<^verbatim>\<open>Link::finalizeConfiguration\<close>: the test
  \<^verbatim>\<open>nullptr == pair_link->send_queue\<close> and, under it, the \<^verbatim>\<open>delete\<close> and the assignment of
  \<^verbatim>\<open>nullptr\<close>. \<open>pa\<close> is the address that \<^verbatim>\<open>pair_link\<close> holds.
\<close>

definition release_init_queue ::
  "addr \<Rightarrow> 't::len Simulation_impl \<Rightarrow> (error + unit) \<times> 't Simulation_impl" where
  "release_init_queue pa s =
     (case heap_get (links s) pa of
        None \<Rightarrow> (Inl InvalidPointer, s)
      | Some P \<Rightarrow>
          if None = send_queue P then
            (case delete_queue (send_queue P) s of
               (Inl e, s') \<Rightarrow> (Inl e, s')
             | (Inr u, s') \<Rightarrow> (Inr (), upd_link pa (\<lambda>L. L\<lparr>send_queue := None\<rparr>) s'))
          else (Inr (), s))"

text \<open>
  Lines 148 to 153: the run-phase queue that a handler link or a polling link installs on
  its pair.
\<close>

definition install_run_queue ::
  "Type_t \<Rightarrow> addr \<Rightarrow> 't::len Simulation_impl \<Rightarrow> 't Simulation_impl" where
  "install_run_queue ty pa s =
     (if HANDLER = ty then upd_link pa (\<lambda>L. L\<lparr>send_queue := getTimeVortex s\<rparr>) s
      else if POLL = ty then
        (case heap_new PollingLinkQueue_ctor (queues s) of
           (qa, qs) \<Rightarrow> upd_link pa (\<lambda>L. L\<lparr>send_queue := Some qa\<rparr>) (s\<lparr>queues := qs\<rparr>))
      else s)"

text \<open>
  \<^verbatim>\<open>Link::finalizeConfiguration\<close> calls itself on the pair link. The first argument bounds
  the depth of that recursion: \<open>None\<close> means that the bound was reached before the call
  returned.
\<close>

fun finalizeConfiguration ::
  "nat \<Rightarrow> addr \<Rightarrow> 't::len Simulation_impl \<Rightarrow> ((error + unit) \<times> 't Simulation_impl) option" where
  "finalizeConfiguration 0 this s = None"
| "finalizeConfiguration (Suc depth) this s =
     (case heap_get (links s) this of
        None \<Rightarrow> Some (Inl InvalidPointer, s)
      | Some L \<Rightarrow>
          let s1 = upd_link this (\<lambda>L. L\<lparr>mode := RUN\<rparr>) s in
          if SYNC = type L then Some (Inr (), s1)
          else
            (case pair_link L of
               None \<Rightarrow> Some (Inl NullPointer, s1)
             | Some pa \<Rightarrow>
                 (case release_init_queue pa s1 of
                    (Inl e, s2) \<Rightarrow> Some (Inl e, s2)
                  | (Inr u, s2) \<Rightarrow>
                      let s3 = install_run_queue (type L) pa s2
                      in (case heap_get (links s3) pa of
                            None \<Rightarrow> Some (Inl InvalidPointer, s3)
                          | Some P \<Rightarrow>
                              if SYNC = type P then finalizeConfiguration depth pa s3
                              else Some (Inr (), s3)))))"

text \<open>\<^verbatim>\<open>Link::prepareForComplete\<close>, with the same bound on the depth of its recursion.\<close>

fun prepareForComplete ::
  "nat \<Rightarrow> addr \<Rightarrow> 't::len Simulation_impl \<Rightarrow> ((error + unit) \<times> 't Simulation_impl) option" where
  "prepareForComplete 0 this s = None"
| "prepareForComplete (Suc depth) this s =
     (case heap_get (links s) this of
        None \<Rightarrow> Some (Inl InvalidPointer, s)
      | Some L \<Rightarrow>
          let s1 = upd_link this (\<lambda>L. L\<lparr>mode := COMPLETE\<rparr>) s in
          if SYNC = type L then Some (Inr (), s1)
          else
            (case pair_link L of
               None \<Rightarrow> Some (Inl NullPointer, s1)
             | Some pa \<Rightarrow>
                 (case heap_get (links s1) pa of
                    None \<Rightarrow> Some (Inl InvalidPointer, s1)
                  | Some P \<Rightarrow>
                      (case (if POLL = type L then delete_queue (send_queue P) s1
                             else (Inr (), s1)) of
                         (Inl e, s2) \<Rightarrow> Some (Inl e, s2)
                       | (Inr u, s2) \<Rightarrow>
                           let s3 = upd_link pa (\<lambda>L. L\<lparr>send_queue := None\<rparr>) s2
                           in (case heap_get (links s3) pa of
                                 None \<Rightarrow> Some (Inl InvalidPointer, s3)
                               | Some P' \<Rightarrow>
                                   if SYNC = type P' then prepareForComplete depth pa s3
                                   else Some (Inr (), s3))))))"

section \<open>Link: timed send and receive (link.cc)\<close>

text \<open>
  \<^verbatim>\<open>LinkSendProfileToolList::eventSent\<close>: every registered tool is told of the event.
\<close>

definition eventSent ::
  "(addr \<times> uintptr_t) list \<Rightarrow> addr \<Rightarrow> 't::len Simulation_impl \<Rightarrow> 't Simulation_impl" where
  "eventSent tools ev s =
     s\<lparr>profile_log := profile_log s @ map (\<lambda>x. (fst x, snd x, ev)) tools\<rparr>"

text \<open>Lines 293 to 305 of \<^verbatim>\<open>Link::send_impl\<close>: what follows the check of the mode.\<close>

definition send_impl_body ::
  "'t::len Link \<Rightarrow> SimTime_t \<Rightarrow> addr option \<Rightarrow> 't Simulation_impl
     \<Rightarrow> (error + unit) \<times> 't Simulation_impl" where
  "send_impl_body L delay event s =
     (let cycle = currentSimCycle s + delay + latency L in
      case (case event of
              None \<Rightarrow>
                (case heap_new NullEvent_ctor (events s) of (a, es) \<Rightarrow> (a, s\<lparr>events := es\<rparr>))
            | Some a \<Rightarrow> (a, s)) of
        (ev, s1) \<Rightarrow>
          (case heap_get (events s1) ev of
             None \<Rightarrow> (Inl InvalidPointer, s1)
           | Some e \<Rightarrow>
               let e1 = setDeliveryTime cycle e;
                   e2 = setDeliveryInfo (tag L) (link_delivery_info L) e1;
                   s2 = s1\<lparr>events := heap_set ev e2 (events s1)\<rparr>;
                   s3 = (case profile_tools L of
                           None \<Rightarrow> s2
                         | Some tools \<Rightarrow> eventSent tools ev s2)
               in queue_insert (send_queue L) ev s3))"

definition send_impl ::
  "addr \<Rightarrow> SimTime_t \<Rightarrow> addr option \<Rightarrow> 't::len Simulation_impl
     \<Rightarrow> (error + unit) \<times> 't Simulation_impl" where
  "send_impl this delay event s =
     (case heap_get (links s) this of
        None \<Rightarrow> (Inl InvalidPointer, s)
      | Some L \<Rightarrow>
          if RUN \<noteq> mode L then
            (if INIT = mode L then (Inl (Fatal SendRecvDuringInit), s)
             else if COMPLETE = mode L then (Inl (Fatal SendRecvDuringComplete), s)
             else send_impl_body L delay event s)
          else send_impl_body L delay event s)"

definition recv ::
  "addr \<Rightarrow> 't::len Simulation_impl \<Rightarrow> (error + addr option) \<times> 't Simulation_impl" where
  "recv this s =
     (case heap_get (links s) this of
        None \<Rightarrow> (Inl InvalidPointer, s)
      | Some L \<Rightarrow>
          if type L \<noteq> POLL then (Inl (Fatal RecvOnNonPollingLink), s)
          else
            (case deref (links s) (pair_link L) of
               Inl e \<Rightarrow> (Inl e, s)
             | Inr P \<Rightarrow>
                 (case deref (queues s) (send_queue P) of
                    Inl e \<Rightarrow> (Inl e, s)
                  | Inr q \<Rightarrow>
                      if \<not> queue_empty q then
                        (case deref (events s) (queue_front q) of
                           Inl e \<Rightarrow> (Inl e, s)
                         | Inr activity \<Rightarrow>
                             if getDeliveryTime activity \<le> getCurrentSimCycle s then
                               (case queue_pop (send_queue P) s of
                                  (Inl e, s') \<Rightarrow> (Inl e, s')
                                | (Inr u, s') \<Rightarrow> (Inr (queue_front q), s'))
                             else (Inr None, s))
                      else (Inr None, s))))"

section \<open>Link: untimed send and receive (link.cc)\<close>

definition sendUntimedData ::
  "addr \<Rightarrow> addr option \<Rightarrow> 't::len Simulation_impl \<Rightarrow> (error + unit) \<times> 't Simulation_impl" where
  "sendUntimedData this data s =
     (case heap_get (links s) this of
        None \<Rightarrow> (Inl InvalidPointer, s)
      | Some L \<Rightarrow>
          if RUN = mode L then (Inl (Fatal UntimedDataDuringRun), s)
          else
            let s1 = (if send_queue L = None
                      then (case heap_new InitQueue_ctor (queues s) of
                              (qa, qs) \<Rightarrow>
                                upd_link this (\<lambda>L. L\<lparr>send_queue := Some qa\<rparr>) (s\<lparr>queues := qs\<rparr>))
                      else s);
                s2 = s1\<lparr>untimed_msg_count := untimed_msg_count s1 + 1\<rparr>
            in (case data of
                  None \<Rightarrow> (Inl NullPointer, s2)
                | Some ev \<Rightarrow>
                    (case heap_get (events s2) ev of
                       None \<Rightarrow> (Inl InvalidPointer, s2)
                     | Some e \<Rightarrow>
                         let e1 = setDeliveryTime (untimed_phase s2 + 1) e;
                             e2 = setDeliveryInfo (tag L) (link_delivery_info L) e1;
                             s3 = s2\<lparr>events := heap_set ev e2 (events s2)\<rparr>
                         in (case heap_get (links s3) this of
                               None \<Rightarrow> (Inl InvalidPointer, s3)
                             | Some L' \<Rightarrow> queue_insert (send_queue L') ev s3))))"

definition sendUntimedData_sync ::
  "addr \<Rightarrow> addr \<Rightarrow> 't::len Simulation_impl \<Rightarrow> (error + unit) \<times> 't Simulation_impl" where
  "sendUntimedData_sync this data s =
     (case heap_get (links s) this of
        None \<Rightarrow> (Inl InvalidPointer, s)
      | Some L \<Rightarrow>
          let s1 = (if send_queue L = None
                    then (case heap_new InitQueue_ctor (queues s) of
                            (qa, qs) \<Rightarrow>
                              upd_link this (\<lambda>L. L\<lparr>send_queue := Some qa\<rparr>) (s\<lparr>queues := qs\<rparr>))
                    else s)
          in (case heap_get (links s1) this of
                None \<Rightarrow> (Inl InvalidPointer, s1)
              | Some L' \<Rightarrow> queue_insert (send_queue L') data s1))"

definition recvUntimedData ::
  "addr \<Rightarrow> 't::len Simulation_impl \<Rightarrow> (error + addr option) \<times> 't Simulation_impl" where
  "recvUntimedData this s =
     (case heap_get (links s) this of
        None \<Rightarrow> (Inl InvalidPointer, s)
      | Some L \<Rightarrow>
          (case deref (links s) (pair_link L) of
             Inl e \<Rightarrow> (Inl e, s)
           | Inr P \<Rightarrow>
               if send_queue P = None then (Inr None, s)
               else
                 (case deref (queues s) (send_queue P) of
                    Inl e \<Rightarrow> (Inl e, s)
                  | Inr q \<Rightarrow>
                      if \<not> queue_empty q then
                        (case deref (events s) (queue_front q) of
                           Inl e \<Rightarrow> (Inl e, s)
                         | Inr activity \<Rightarrow>
                             if getDeliveryTime activity \<le> untimed_phase s then
                               (case queue_pop (send_queue P) s of
                                  (Inl e, s') \<Rightarrow> (Inl e, s')
                                | (Inr u, s') \<Rightarrow> (Inr (queue_front q), s'))
                             else (Inr None, s))
                      else (Inr None, s))))"


section \<open>Membership in a link's queues\<close>

text \<open>Whether the activity \<open>ev\<close> is held by the queue that \<^verbatim>\<open>send_queue\<close> of link \<open>l\<close> points to.\<close>

definition in_send_queue :: "addr \<Rightarrow> addr \<Rightarrow> 't::len Simulation_impl \<Rightarrow> bool" where
  "in_send_queue ev l s =
     (case heap_get (links s) l of
        None \<Rightarrow> False
      | Some L \<Rightarrow>
          (case deref (queues s) (send_queue L) of
             Inl _ \<Rightarrow> False
           | Inr q \<Rightarrow> ev \<in> set (items q)))"

text \<open>
  Whether \<open>ev\<close> is held by the queue that link \<open>r\<close> consumes from: \<^verbatim>\<open>recv\<close> and
  \<^verbatim>\<open>recvUntimedData\<close> on \<open>r\<close> read \<^verbatim>\<open>pair_link->send_queue\<close>.
\<close>

definition in_recv_queue :: "addr \<Rightarrow> addr \<Rightarrow> 't::len Simulation_impl \<Rightarrow> bool" where
  "in_recv_queue ev r s =
     (case heap_get (links s) r of
        None \<Rightarrow> False
      | Some R \<Rightarrow>
          (case pair_link R of
             None \<Rightarrow> False
           | Some pa \<Rightarrow> in_send_queue ev pa s))"

section \<open>Concrete inputs\<close>

text \<open>
  The activities of the specification's first boundary scenario: A (time 10, priority 50,
  order tag 2), B (time 10, priority 50, order tag 1) and C (time 10, priority 40, order
  tag 9).
\<close>

definition act_A :: Activity where
  "act_A = setOrderTag 2 (setPriority 50 (setDeliveryTime 10 Activity_ctor))"

definition act_B :: Activity where
  "act_B = setOrderTag 1 (setPriority 50 (setDeliveryTime 10 Activity_ctor))"

definition act_C :: Activity where
  "act_C = setOrderTag 9 (setPriority 40 (setDeliveryTime 10 Activity_ctor))"

text \<open>
  Two links as the constructor leaves them, each the pair of the other, one event, and the
  rank's time vortex at queue address 0. Link identifiers are taken 32 bits wide here.
\<close>

definition paired_links :: "32 Simulation_impl" where
  "paired_links =
     \<lparr>currentSimCycle = 0, untimed_phase = 0, untimed_msg_count = 0, timeVortex = Some 0,
      links = [Some ((Link_ctor 7)\<lparr>pair_link := Some 1\<rparr>),
               Some ((Link_ctor 7)\<lparr>pair_link := Some 0\<rparr>)],
      queues = [Some TimeVortex_ctor],
      events = [Some Event_ctor],
      profile_log = []\<rparr>"

text \<open>
  Both links polling and finalized, at time 10: each has received a polling queue of its
  own from the other's \<^verbatim>\<open>finalizeConfiguration\<close>.
\<close>

definition polling_run :: "32 Simulation_impl" where
  "polling_run =
     \<lparr>currentSimCycle = 10, untimed_phase = 0, untimed_msg_count = 0, timeVortex = Some 0,
      links = [Some ((Link_ctor 7)\<lparr>pair_link := Some 1, type := POLL, mode := RUN,
                                     send_queue := Some 2\<rparr>),
               Some ((Link_ctor 7)\<lparr>pair_link := Some 0, type := POLL, mode := RUN,
                                     send_queue := Some 1\<rparr>)],
      queues = [Some TimeVortex_ctor, Some PollingLinkQueue_ctor, Some PollingLinkQueue_ctor],
      events = [Some Event_ctor],
      profile_log = []\<rparr>"

text \<open>
  The same pair one step earlier, when only link 0 has been finalized; and the pair after a
  second \<^verbatim>\<open>finalizeConfiguration\<close> on link 1, which has allocated one more polling queue,
  at address 3.
\<close>

definition polling_half :: "32 Simulation_impl" where
  "polling_half =
     polling_run\<lparr>links :=
       [Some ((Link_ctor 7)\<lparr>pair_link := Some 1, type := POLL, mode := RUN\<rparr>),
        Some ((Link_ctor 7)\<lparr>pair_link := Some 0, type := POLL, send_queue := Some 1\<rparr>)],
       queues := [Some TimeVortex_ctor, Some PollingLinkQueue_ctor]\<rparr>"

definition polling_run_again :: "32 Simulation_impl" where
  "polling_run_again =
     polling_run\<lparr>links :=
       [Some ((Link_ctor 7)\<lparr>pair_link := Some 1, type := POLL, mode := RUN,
                              send_queue := Some 3\<rparr>),
        Some ((Link_ctor 7)\<lparr>pair_link := Some 0, type := POLL, mode := RUN,
                              send_queue := Some 1\<rparr>)],
       queues := [Some TimeVortex_ctor, Some PollingLinkQueue_ctor, Some PollingLinkQueue_ctor,
                  Some PollingLinkQueue_ctor]\<rparr>"

text \<open>
  Still in the init phase: link 0 has a handler (the word 4096), and link 1 has sent the
  event as untimed data, which created its init queue at address 1.
\<close>

definition init_queue_left :: "32 Simulation_impl" where
  "init_queue_left =
     \<lparr>currentSimCycle = 0, untimed_phase = 0, untimed_msg_count = 1, timeVortex = Some 0,
      links = [Some ((Link_ctor 7)\<lparr>pair_link := Some 1, type := HANDLER\<rparr>),
               Some ((Link_ctor 7)\<lparr>pair_link := Some 0, link_delivery_info := 4096,
                                     send_queue := Some 1\<rparr>)],
      queues = [Some TimeVortex_ctor, Some (InitQueue_ctor\<lparr>items := [0]\<rparr>)],
      events = [Some (setDeliveryInfo (7 :: 32 word) 4096 (setDeliveryTime 1 Event_ctor))],
      profile_log = []\<rparr>"

definition init_queue_left_run :: "32 Simulation_impl" where
  "init_queue_left_run =
     init_queue_left\<lparr>links :=
       [Some ((Link_ctor 7)\<lparr>pair_link := Some 1, type := HANDLER, mode := RUN\<rparr>),
        Some ((Link_ctor 7)\<lparr>pair_link := Some 0, link_delivery_info := 4096,
                              send_queue := Some 0\<rparr>)]\<rparr>"

text \<open>
  The polling pair after \<^verbatim>\<open>prepareForComplete\<close> on both links, with the event sent by
  link 1 as untimed data of the complete phase; and the pair before the run, link 0
  polling, with the same untimed event sent by link 1.
\<close>

definition complete_untimed :: "32 Simulation_impl" where
  "complete_untimed =
     \<lparr>currentSimCycle = 10, untimed_phase = 0, untimed_msg_count = 1, timeVortex = Some 0,
      links = [Some ((Link_ctor 7)\<lparr>pair_link := Some 1, type := POLL, mode := COMPLETE\<rparr>),
               Some ((Link_ctor 7)\<lparr>pair_link := Some 0, type := POLL, mode := COMPLETE,
                                     send_queue := Some 3\<rparr>)],
      queues = [Some TimeVortex_ctor, None, None, Some (InitQueue_ctor\<lparr>items := [0]\<rparr>)],
      events = [Some (setDeliveryInfo (7 :: 32 word) 0 (setDeliveryTime 1 Event_ctor))],
      profile_log = []\<rparr>"

definition init_untimed :: "32 Simulation_impl" where
  "init_untimed =
     \<lparr>currentSimCycle = 0, untimed_phase = 0, untimed_msg_count = 1, timeVortex = Some 0,
      links = [Some ((Link_ctor 7)\<lparr>pair_link := Some 1, type := POLL\<rparr>),
               Some ((Link_ctor 7)\<lparr>pair_link := Some 0, send_queue := Some 1\<rparr>)],
      queues = [Some TimeVortex_ctor, Some (InitQueue_ctor\<lparr>items := [0]\<rparr>)],
      events = [Some (setDeliveryInfo (7 :: 32 word) 0 (setDeliveryTime 1 Event_ctor))],
      profile_log = []\<rparr>"

text \<open>
  The same state once the component has constructed a second event, at event address 1,
  which link 1 has not sent yet.
\<close>

definition init_untimed_second :: "32 Simulation_impl" where
  "init_untimed_second =
     init_untimed\<lparr>events :=
       [Some (setDeliveryInfo (7 :: 32 word) 0 (setDeliveryTime 1 Event_ctor)),
        Some Event_ctor]\<rparr>"

text \<open>A handler link whose pair is a sync link, before and after \<^verbatim>\<open>finalizeConfiguration\<close>.\<close>

definition handler_sync_pair :: "32 Simulation_impl" where
  "handler_sync_pair =
     \<lparr>currentSimCycle = 0, untimed_phase = 0, untimed_msg_count = 0, timeVortex = Some 0,
      links = [Some ((Link_ctor 7)\<lparr>pair_link := Some 1, type := HANDLER\<rparr>),
               Some ((Link_ctor 7)\<lparr>pair_link := Some 0, type := SYNC\<rparr>)],
      queues = [Some TimeVortex_ctor],
      events = [],
      profile_log = []\<rparr>"

definition handler_sync_run :: "32 Simulation_impl" where
  "handler_sync_run =
     handler_sync_pair\<lparr>links :=
       [Some ((Link_ctor 7)\<lparr>pair_link := Some 1, type := HANDLER, mode := RUN\<rparr>),
        Some ((Link_ctor 7)\<lparr>pair_link := Some 0, type := SYNC, mode := RUN,
                              send_queue := Some 0\<rparr>)]\<rparr>"

declare finalizeConfiguration.simps [simp del] prepareForComplete.simps [simp del]

section \<open>Properties of the activity record\<close>

lemma low_half_mask: "(0xFFFFFFFF :: 64 word) = mask 32"
  by (simp add: mask_eq_exp_minus_1)

lemma high_half_mask: "(0xFFFFFFFF00000000 :: 64 word) = push_bit 32 (mask 32)"
  by (simp add: mask_eq_exp_minus_1 push_bit_eq_mult)

lemma getPriority_setPriority: "getPriority (setPriority p a) = ucast p"
  unfolding getPriority_def setPriority_def low_half_mask
  by (simp, intro bit_word_eqI) (auto simp add: bit_simps)

lemma getOrderTag_setPriority: "getOrderTag (setPriority p a) = getOrderTag a"
  unfolding getOrderTag_def setPriority_def low_half_mask
  by (simp, intro bit_word_eqI) (auto simp add: bit_simps)

lemma getOrderTag_setOrderTag: "getOrderTag (setOrderTag t a) = t"
  unfolding getOrderTag_def setOrderTag_def low_half_mask high_half_mask
  by (simp, intro bit_word_eqI) (auto simp add: bit_simps)

lemma getPriority_setOrderTag: "getPriority (setOrderTag t a) = getPriority a"
  unfolding getPriority_def setOrderTag_def high_half_mask
  by (simp, intro bit_word_eqI) (auto simp add: bit_simps dest: bit_imp_le_length)

lemma ucast_scast_int: "ucast (scast (i :: 32 word) :: 64 word) = i"
  by (intro bit_word_eqI) (auto simp add: bit_simps)

lemma ucast_ucast_int: "ucast (ucast (i :: 32 word) :: 64 word) = i"
  by (intro bit_word_eqI) (auto simp add: bit_simps)

lemma Activity_less_lex:
  "Activity_less True True True a b = triple_lex_less (order_triple a) (order_triple b)"
  by (auto simp: Activity_less_def triple_lex_less_def order_triple_def)

lemma Activity_less_selected:
  "Activity_less T P Q a b
     = triple_lex_less (selected_triple T P Q a) (selected_triple T P Q b)"
  by (auto simp: Activity_less_def triple_lex_less_def selected_triple_def)

lemma Activity_less_irrefl: "\<not> Activity_less T P Q a a"
  by (simp add: Activity_less_def)

lemma Activity_less_trans:
  "Activity_less T P Q a b \<Longrightarrow> Activity_less T P Q b c \<Longrightarrow> Activity_less T P Q a c"
  by (auto simp: Activity_less_def split: if_splits)

lemma Activity_less_total:
  "order_triple a \<noteq> order_triple b
     \<Longrightarrow> Activity_less True True True a b \<or> Activity_less True True True b a"
  by (auto simp: Activity_less_def order_triple_def)

text \<open>
  C2. The comparator \<open>less<true,true,true>\<close> holds of \<open>a\<close> and \<open>b\<close> exactly when the triple
  (delivery time, priority order, queue order) of \<open>a\<close> is lexicographically smaller than
  that of \<open>b\<close>; it is irreflexive and transitive, and it orders any two activities whose
  triples differ, so it is a strict total order on them. For any \<open>(T, P, Q)\<close> the
  comparator is the same lexicographic comparison on the selected fields alone, taken in
  the order delivery time, priority order, queue order.
\<close>

theorem Activity_less_strict_total_order:
  fixes a b c :: "'a Activity_scheme"
  shows "Activity_less True True True a b
           = triple_lex_less (order_triple a) (order_triple b)
       \<and> \<not> Activity_less True True True a a
       \<and> (Activity_less True True True a b \<longrightarrow> Activity_less True True True b c
            \<longrightarrow> Activity_less True True True a c)
       \<and> (order_triple a \<noteq> order_triple b
            \<longrightarrow> Activity_less True True True a b \<or> Activity_less True True True b a)
       \<and> Activity_less T P Q a b
           = triple_lex_less (selected_triple T P Q a) (selected_triple T P Q b)"
proof (intro conjI impI)
  show "Activity_less True True True a b
          = triple_lex_less (order_triple a) (order_triple b)"
    by (rule Activity_less_lex)
  show "\<not> Activity_less True True True a a"
    by (rule Activity_less_irrefl)
  show "Activity_less True True True a c"
    if "Activity_less True True True a b" and "Activity_less True True True b c"
    using that by (rule Activity_less_trans)
  show "Activity_less True True True a b \<or> Activity_less True True True b a"
    if "order_triple a \<noteq> order_triple b"
    using that by (rule Activity_less_total)
  show "Activity_less T P Q a b
          = triple_lex_less (selected_triple T P Q a) (selected_triple T P Q b)"
    by (rule Activity_less_selected)
qed

lemma act_C_before_B: "Activity_less True True True act_C act_B"
  by (simp add: Activity_less_def act_C_def act_B_def setOrderTag_def setPriority_def
      setDeliveryTime_def Activity_ctor_def)

lemma act_B_before_A: "Activity_less True True True act_B act_A"
  by (simp add: Activity_less_def act_A_def act_B_def setOrderTag_def setPriority_def
      setDeliveryTime_def Activity_ctor_def)

lemma act_C_B_differ: "order_triple act_C \<noteq> order_triple act_B"
  by (simp add: order_triple_def act_C_def act_B_def setOrderTag_def setPriority_def
      setDeliveryTime_def Activity_ctor_def)

theorem Activity_less_strict_total_order_witness:
  "Activity_less True True True act_C act_B \<and> Activity_less True True True act_B act_A
   \<and> Activity_less True True True act_C act_A
   \<and> order_triple act_C \<noteq> order_triple act_B
   \<and> (Activity_less True True True act_C act_B \<or> Activity_less True True True act_B act_C)"
  using Activity_less_strict_total_order [of act_C act_B act_A True True True]
    act_C_before_B act_B_before_A act_C_B_differ
  by blast

text \<open>
  C9. For every activity, \<^verbatim>\<open>getPriority\<close> after \<^verbatim>\<open>setPriority(p)\<close> returns \<open>p\<close> as the
  32-bit \<^verbatim>\<open>int\<close> that the getter returns: the low 32 bits of the setter's 64-bit
  argument, hence \<open>i\<close> itself for every \<^verbatim>\<open>int\<close> \<open>i\<close>, whether the call converts it by sign or
  by zero extension; the order tag is unchanged. After \<^verbatim>\<open>setOrderTag(t)\<close>, \<^verbatim>\<open>getOrderTag\<close>
  returns \<open>t\<close> and the priority is unchanged.
\<close>

theorem priority_and_order_tag_independent:
  fixes a :: "'a Activity_scheme" and p :: "64 word" and i t :: "32 word"
  shows "getPriority (setPriority p a) = ucast p
       \<and> getPriority (setPriority (scast i) a) = i
       \<and> getPriority (setPriority (ucast i) a) = i
       \<and> getOrderTag (setPriority p a) = getOrderTag a
       \<and> getOrderTag (setOrderTag t a) = t
       \<and> getPriority (setOrderTag t a) = getPriority a"
  by (simp add: getPriority_setPriority getOrderTag_setPriority getOrderTag_setOrderTag
      getPriority_setOrderTag ucast_scast_int ucast_ucast_int)

section \<open>Properties of the store\<close>

lemma heap_get_Some_less: "heap_get h a = Some v \<Longrightarrow> a < length h"
  by (simp add: heap_get_def split: if_splits)

lemma heap_get_heap_set:
  "heap_get (heap_set a v h) b = (if a = b \<and> a < length h then Some v else heap_get h b)"
  by (simp add: heap_get_def heap_set_def)

lemma heap_get_heap_free:
  "heap_get (heap_free a h) b = (if a = b then None else heap_get h b)"
  by (simp add: heap_get_def heap_free_def)

lemma heap_get_append_new:
  "heap_get (h @ [Some v]) a = (if a = length h then Some v else heap_get h a)"
  by (simp add: heap_get_def nth_append)

lemma length_heap_set [simp]: "length (heap_set a v h) = length h"
  by (simp add: heap_set_def)

lemma heap_set_last: "heap_set (length h) v (h @ [x]) = h @ [Some v]"
  by (simp add: heap_set_def)

lemma heap_eqI:
  assumes len: "length h = length h'" and eq: "\<And>a. heap_get h a = heap_get h' a"
  shows "h = h'"
proof (rule nth_equalityI)
  show "length h = length h'" by (rule len)
next
  fix i assume i: "i < length h"
  from eq [of i] i len show "h ! i = h' ! i" by (simp add: heap_get_def)
qed

lemma links_upd_link:
  "heap_get (links (upd_link a f s)) b
     = (if a = b then map_option f (heap_get (links s) a) else heap_get (links s) b)"
  by (auto simp: upd_link_def heap_get_heap_set split: option.splits dest: heap_get_Some_less)

lemma upd_link_other [simp]:
  "queues (upd_link a f s) = queues s"
  "events (upd_link a f s) = events s"
  "timeVortex (upd_link a f s) = timeVortex s"
  "currentSimCycle (upd_link a f s) = currentSimCycle s"
  "untimed_phase (upd_link a f s) = untimed_phase s"
  "untimed_msg_count (upd_link a f s) = untimed_msg_count s"
  "profile_log (upd_link a f s) = profile_log s"
  "length (links (upd_link a f s)) = length (links s)"
  by (simp_all add: upd_link_def split: option.splits)

lemma upd_link_live:
  "heap_get (links s) a = Some X \<Longrightarrow> upd_link a f s = s\<lparr>links := heap_set a (f X) (links s)\<rparr>"
  by (simp add: upd_link_def)

lemma upd_link_id:
  assumes X: "heap_get (links s) a = Some X" and f: "f X = X"
  shows "upd_link a f s = s"
proof -
  from X f have "(links s)[a := Some (f X)] = links s"
    by (simp add: heap_get_def list_update_same_conv split: if_splits)
  then show ?thesis using X by (simp add: upd_link_def heap_set_def)
qed

lemma Simulation_eqI:
  fixes s s' :: "'t::len Simulation_impl"
  assumes "currentSimCycle s = currentSimCycle s'" "untimed_phase s = untimed_phase s'"
    "untimed_msg_count s = untimed_msg_count s'" "timeVortex s = timeVortex s'"
    "queues s = queues s'" "events s = events s'" "profile_log s = profile_log s'"
    "length (links s) = length (links s')"
    "\<And>a. heap_get (links s) a = heap_get (links s') a"
  shows "s = s'"
  using assms by (intro Simulation_impl.equality heap_eqI) simp_all

lemma link_after_mode_update:
  "heap_get (links s) a = Some X \<Longrightarrow>
     \<exists>X'. heap_get (links (upd_link l (\<lambda>L. L\<lparr>mode := m\<rparr>) s)) a = Some X'
       \<and> type X' = type X \<and> pair_link X' = pair_link X \<and> send_queue X' = send_queue X"
  by (cases "l = a") (auto simp: links_upd_link)

lemma mode_after_mode_update:
  "heap_get (links s) a = Some X \<Longrightarrow> mode X = m \<Longrightarrow>
     \<exists>X'. heap_get (links (upd_link l (\<lambda>L. L\<lparr>mode := m\<rparr>) s)) a = Some X'
       \<and> mode X' = m \<and> send_queue X' = send_queue X"
  by (cases "l = a") (auto simp: links_upd_link)

lemmas eval_defs = heap_get_def heap_set_def heap_new_def heap_free_def deref_def upd_link_def
  Link_ctor_def delete_queue_def PollingLinkQueue_ctor_def InitQueue_ctor_def TimeVortex_ctor_def
  getTimeVortex_def release_init_queue_def install_run_queue_def queue_insert_def
  queue_empty_def queue_front_def queue_pop_def getDeliveryTime_def getCurrentSimCycle_def
  admission_time_def setDeliveryInfo_def setDeliveryTime_def setOrderTag_def

section \<open>The concrete inputs are reached through the interface\<close>

lemma polling_run_reached:
  "finalizeConfiguration (Suc (Suc 0)) 1
     (snd (the (finalizeConfiguration (Suc (Suc 0)) 0
       (snd (setPolling 1 (snd (setPolling 0 (paired_links\<lparr>currentSimCycle := 10\<rparr>))))))))
   = Some (Inr (), polling_run)"
  by (simp add: finalizeConfiguration.simps paired_links_def polling_run_def setPolling_def
      eval_defs)

lemma polling_half_reached:
  "finalizeConfiguration (Suc (Suc 0)) 0
     (snd (setPolling 1 (snd (setPolling 0 (paired_links\<lparr>currentSimCycle := 10\<rparr>)))))
   = Some (Inr (), polling_half)"
  by (simp add: finalizeConfiguration.simps paired_links_def polling_half_def polling_run_def
      setPolling_def eval_defs)

lemma init_queue_left_reached:
  "sendUntimedData 1 (Some 0) (snd (setFunctor 0 4096 paired_links)) = (Inr (), init_queue_left)"
  by (simp add: sendUntimedData_def setFunctor_def paired_links_def init_queue_left_def eval_defs)

lemma complete_untimed_reached:
  "sendUntimedData 1 (Some 0)
     (snd (the (prepareForComplete (Suc (Suc 0)) 1
        (snd (the (prepareForComplete (Suc (Suc 0)) 0 polling_run))))))
   = (Inr (), complete_untimed)"
  by (simp add: sendUntimedData_def prepareForComplete.simps polling_run_def
      complete_untimed_def eval_defs)

lemma init_untimed_reached:
  "sendUntimedData 1 (Some 0) (snd (setPolling 0 paired_links)) = (Inr (), init_untimed)"
  by (simp add: sendUntimedData_def setPolling_def paired_links_def init_untimed_def eval_defs)


section \<open>Properties of the timed send\<close>

lemma in_set_insert_ordered: "set (insert_ordered lt x xs) = insert x (set xs)"
  by (induction xs) auto

lemma getOrderTag_setDeliveryInfo: "getOrderTag (setDeliveryInfo tg info e) = ucast tg"
proof -
  have "getOrderTag ((setOrderTag (ucast tg) e)\<lparr>delivery_info := info\<rparr>)
          = getOrderTag (setOrderTag (ucast tg) e)"
    by (simp add: getOrderTag_def)
  then show ?thesis by (simp add: setDeliveryInfo_def getOrderTag_setOrderTag)
qed

text \<open>
  Inserting a live activity whose delivery time has not passed into a live queue succeeds,
  whatever the kind of the queue. The queue gains the activity (at its tail, unless it is
  the time vortex); the activity keeps its time, priority word and delivery word; nothing
  else changes.
\<close>

lemma queue_insert_ok:
  fixes s :: "'t::len Simulation_impl"
  assumes q: "heap_get (queues s) qa = Some q"
    and ev: "heap_get (events s) ev = Some e"
    and adm: "admission_time (kind q) s \<le> delivery_time e"
    and live: "kind q = TimeVortex \<longrightarrow> \<not> list_ex (\<lambda>a. heap_get (events s) a = None) (items q)"
  shows "\<exists>s' q' e'. queue_insert (Some qa) ev s = (Inr (), s')
           \<and> heap_get (queues s') qa = Some q' \<and> kind q' = kind q
           \<and> set (items q') = insert ev (set (items q))
           \<and> (kind q \<noteq> TimeVortex \<longrightarrow> items q' = items q @ [ev])
           \<and> (items q = [] \<longrightarrow> items q' = [ev])
           \<and> (\<forall>b. b \<noteq> qa \<longrightarrow> heap_get (queues s') b = heap_get (queues s) b)
           \<and> links s' = links s
           \<and> untimed_phase s' = untimed_phase s
           \<and> untimed_msg_count s' = untimed_msg_count s
           \<and> currentSimCycle s' = currentSimCycle s
           \<and> heap_get (events s') ev = Some e' \<and> delivery_time e' = delivery_time e
           \<and> priority_order e' = priority_order e \<and> delivery_info e' = delivery_info e
           \<and> (\<forall>a. a \<noteq> ev \<longrightarrow> heap_get (events s') a = heap_get (events s) a)"
proof -
  have na: "\<not> delivery_time e < admission_time (kind q) s"
    using adm by (simp add: not_less)
  have lt: "qa < length (queues s)" "ev < length (events s)"
    using q ev by (auto dest: heap_get_Some_less)
  show ?thesis
  proof (cases "kind q")
    case TimeVortex
    show ?thesis
    proof (cases "ev \<in> set (items q)")
      case True
      then have "queue_insert (Some qa) ev s = (Inr (), s)"
        using q ev na TimeVortex by (simp add: queue_insert_def)
      moreover have "set (items q) = insert ev (set (items q))" "items q \<noteq> []"
        using True by auto
      ultimately show ?thesis using q ev TimeVortex by auto
    next
      case False
      define es where "es = heap_set ev (setQueueOrder (insert_count q) e) (events s)"
      define q' where "q' = q\<lparr>items := insert_ordered (activity_before es) ev (items q),
                                insert_count := insert_count q + 1\<rparr>"
      have "queue_insert (Some qa) ev s
              = (Inr (), s\<lparr>events := es, queues := heap_set qa q' (queues s)\<rparr>)"
        using q ev na TimeVortex False live
        by (simp add: queue_insert_def Let_def es_def q'_def)
      moreover have "set (items q') = insert ev (set (items q))" "kind q' = kind q"
        "items q = [] \<longrightarrow> items q' = [ev]"
        by (auto simp: q'_def in_set_insert_ordered)
      moreover have "heap_get es ev = Some (setQueueOrder (insert_count q) e)"
        "\<forall>a. a \<noteq> ev \<longrightarrow> heap_get es a = heap_get (events s) a"
        using lt by (simp_all add: es_def heap_get_heap_set)
      ultimately show ?thesis using lt TimeVortex
        by (simp add: heap_get_heap_set setQueueOrder_def)
    qed
  next
    case PollingLinkQueue
    then have "queue_insert (Some qa) ev s
        = (Inr (), s\<lparr>queues := heap_set qa (q\<lparr>items := items q @ [ev]\<rparr>) (queues s)\<rparr>)"
      using q ev na by (simp add: queue_insert_def)
    then show ?thesis using lt ev by (simp add: heap_get_heap_set)
  next
    case InitQueue
    then have "queue_insert (Some qa) ev s
        = (Inr (), s\<lparr>queues := heap_set qa (q\<lparr>items := items q @ [ev]\<rparr>) (queues s)\<rparr>)"
      using q ev na by (simp add: queue_insert_def)
    then show ?thesis using lt ev by (simp add: heap_get_heap_set)
  qed
qed

lemma send_impl_run:
  fixes s :: "'t::len Simulation_impl"
  assumes L: "heap_get (links s) l = Some L"
    and run: "mode L = RUN"
    and e: "heap_get (events s) ev = Some e"
    and sq: "send_queue L = Some qa"
    and q: "heap_get (queues s) qa = Some q"
    and adm: "admission_time (kind q) s \<le> currentSimCycle s + d + latency L"
    and live: "kind q = TimeVortex \<longrightarrow> \<not> list_ex (\<lambda>a. heap_get (events s) a = None) (items q)"
  shows "\<exists>s' e'. send_impl l d (Some ev) s = (Inr (), s')
           \<and> heap_get (events s') ev = Some e'
           \<and> delivery_time e' = currentSimCycle s + d + latency L
           \<and> getOrderTag e' = ucast (tag L)
           \<and> delivery_info e' = link_delivery_info L
           \<and> links s' = links s
           \<and> in_send_queue ev l s'
           \<and> (\<forall>r R. heap_get (links s) r = Some R \<and> pair_link R = Some l
                 \<longrightarrow> in_recv_queue ev r s')"
proof -
  define e2 where "e2 = setDeliveryInfo (tag L) (link_delivery_info L)
                          (setDeliveryTime (currentSimCycle s + d + latency L) e)"
  define s2 where "s2 = s\<lparr>events := heap_set ev e2 (events s)\<rparr>"
  define s3 where "s3 = (case profile_tools L of None \<Rightarrow> s2 | Some tools \<Rightarrow> eventSent tools ev s2)"
  have ev_lt: "ev < length (events s)" using e by (rule heap_get_Some_less)
  have s3_events: "events s3 = heap_set ev e2 (events s)"
    and s3_queues: "queues s3 = queues s" and s3_links: "links s3 = links s"
    by (simp_all add: s3_def s2_def eventSent_def split: option.split)
  have e3: "heap_get (events s3) ev = Some e2"
    using ev_lt by (simp add: s3_events heap_get_heap_set)
  have q3: "heap_get (queues s3) qa = Some q" using q by (simp add: s3_queues)
  have live3: "kind q = TimeVortex \<longrightarrow> \<not> list_ex (\<lambda>a. heap_get (events s3) a = None) (items q)"
    using live by (auto simp: s3_events heap_get_heap_set list_ex_iff)
  have s3_times: "admission_time (kind q) s3 = admission_time (kind q) s"
    by (simp add: s3_def s2_def eventSent_def admission_time_def
        split: option.split QueueKind.split)
  have "delivery_time e2 = currentSimCycle s + d + latency L"
    by (simp add: e2_def setDeliveryInfo_def setDeliveryTime_def setOrderTag_def)
  with adm s3_times have adm3: "admission_time (kind q) s3 \<le> delivery_time e2" by simp
  from queue_insert_ok [OF q3 e3 adm3 live3]
  obtain s' q' e' where ins: "queue_insert (Some qa) ev s3 = (Inr (), s')"
    and q': "heap_get (queues s') qa = Some q'" "set (items q') = insert ev (set (items q))"
    and l': "links s' = links s3"
    and e': "heap_get (events s') ev = Some e'" "delivery_time e' = delivery_time e2"
       "priority_order e' = priority_order e2" "delivery_info e' = delivery_info e2"
    by blast
  have send: "send_impl l d (Some ev) s = (Inr (), s')"
    using L run e sq ins [unfolded s3_def s2_def e2_def]
    by (simp add: send_impl_def send_impl_body_def Let_def)
  have "getOrderTag e' = getOrderTag e2"
    using e'(3) by (simp add: getOrderTag_def)
  then have tag: "getOrderTag e' = ucast (tag L)"
    by (simp add: e2_def getOrderTag_setDeliveryInfo)
  have mem: "in_send_queue ev l s'"
    using L sq q' l' s3_links by (simp add: in_send_queue_def deref_def)
  have cons: "\<forall>r R. heap_get (links s) r = Some R \<and> pair_link R = Some l
                 \<longrightarrow> in_recv_queue ev r s'"
    using mem l' s3_links by (auto simp: in_recv_queue_def)
  have tm: "delivery_time e' = currentSimCycle s + d + latency L"
    and di: "delivery_info e' = link_delivery_info L"
    using e'(2,4) by (simp_all add: e2_def setDeliveryInfo_def setDeliveryTime_def setOrderTag_def)
  have ls: "links s' = links s" using l' s3_links by simp
  from send e'(1) tm tag di ls mem cons show ?thesis by blast
qed

text \<open>
  C1, as the specification states it, fails. On the polling pair, \<^verbatim>\<open>send\<close> on link 0
  succeeds and puts the event into the send queue of link 0 itself, which is the queue
  that the pair link, link 1, consumes from; the event is not in the send queue of link 1.
\<close>

theorem send_not_in_pair_send_queue:
  "fst (send_impl 0 3 (Some 0) polling_run) = Inr ()
   \<and> map_option pair_link (heap_get (links polling_run) 0) = Some (Some 1)
   \<and> in_send_queue 0 0 (snd (send_impl 0 3 (Some 0) polling_run))
   \<and> in_recv_queue 0 1 (snd (send_impl 0 3 (Some 0) polling_run))
   \<and> \<not> in_send_queue 0 1 (snd (send_impl 0 3 (Some 0) polling_run))"
  by (simp add: send_impl_def send_impl_body_def polling_run_def eval_defs Event_ctor_def
      in_send_queue_def in_recv_queue_def)

text \<open>
  C1, amended. For every link \<open>L\<close> in run mode whose \<^verbatim>\<open>send_queue\<close> points to a live queue,
  and every delay for which the sum \<open>t0 + d + latency L\<close> (64-bit, \<open>t0\<close> the clock at the
  send) is not before the time the queue admits from (so has not wrapped around to the
  past), \<^verbatim>\<open>send(d, e)\<close> on \<open>L\<close> returns normally, stamps \<open>e\<close> with the delivery time
  \<open>t0 + d + latency L\<close>, with the order tag of
  \<open>L\<close>'s tag (converted to \<^verbatim>\<open>uint32_t\<close>) and with \<open>L\<close>'s delivery info, and makes \<open>e\<close>
  appear in the send queue of \<open>L\<close> itself, which is the queue that every link whose pair
  is \<open>L\<close> consumes from (through \<^verbatim>\<open>pair_link->send_queue\<close>); no link is changed.
\<close>

theorem send_impl_stamps_and_enqueues:
  fixes s :: "'t::len Simulation_impl"
  assumes "heap_get (links s) l = Some L"
    and "mode L = RUN"
    and "heap_get (events s) ev = Some e"
    and "send_queue L = Some qa"
    and "heap_get (queues s) qa = Some q"
    and "admission_time (kind q) s \<le> currentSimCycle s + d + latency L"
    and "kind q = TimeVortex \<longrightarrow> \<not> list_ex (\<lambda>a. heap_get (events s) a = None) (items q)"
  shows "\<exists>s' e'. send_impl l d (Some ev) s = (Inr (), s')
           \<and> heap_get (events s') ev = Some e'
           \<and> delivery_time e' = currentSimCycle s + d + latency L
           \<and> getOrderTag e' = ucast (tag L)
           \<and> delivery_info e' = link_delivery_info L
           \<and> links s' = links s
           \<and> in_send_queue ev l s'
           \<and> (\<forall>r R. heap_get (links s) r = Some R \<and> pair_link R = Some l
                 \<longrightarrow> in_recv_queue ev r s')"
  using assms by (rule send_impl_run)

theorem send_impl_stamps_and_enqueues_witness:
  "heap_get (links polling_run) 0
     = Some ((Link_ctor 7)\<lparr>pair_link := Some 1, type := POLL, mode := RUN, send_queue := Some 2\<rparr>)
   \<and> heap_get (events polling_run) 0 = Some Event_ctor
   \<and> heap_get (queues polling_run) 2 = Some PollingLinkQueue_ctor
   \<and> admission_time (kind PollingLinkQueue_ctor) polling_run \<le> currentSimCycle polling_run + 3 + 1
   \<and> (\<exists>s' e'. send_impl 0 3 (Some 0) polling_run = (Inr (), s')
         \<and> heap_get (events s') 0 = Some e'
         \<and> delivery_time e' = 14 \<and> getOrderTag e' = 7 \<and> delivery_info e' = 0
         \<and> in_send_queue 0 0 s' \<and> in_recv_queue 0 1 s')"
proof -
  let ?L = "(Link_ctor (7 :: 32 word))\<lparr>pair_link := Some 1, type := POLL, mode := RUN,
              send_queue := Some 2\<rparr>"
  have h1: "heap_get (links polling_run) 0 = Some ?L"
    by (simp add: polling_run_def heap_get_def)
  have h2: "mode ?L = RUN" by simp
  have h3: "heap_get (events polling_run) 0 = Some Event_ctor"
    by (simp add: polling_run_def heap_get_def)
  have h4: "send_queue ?L = Some 2" by simp
  have h5: "heap_get (queues polling_run) 2 = Some PollingLinkQueue_ctor"
    by (simp add: polling_run_def heap_get_def)
  have h6: "kind PollingLinkQueue_ctor = TimeVortex \<longrightarrow>
      \<not> list_ex (\<lambda>a. heap_get (events polling_run) a = None) (items PollingLinkQueue_ctor)"
    by (simp add: PollingLinkQueue_ctor_def)
  have h7: "admission_time (kind PollingLinkQueue_ctor) polling_run
              \<le> currentSimCycle polling_run + 3 + latency ?L"
    and h7': "admission_time (kind PollingLinkQueue_ctor) polling_run
              \<le> currentSimCycle polling_run + 3 + 1"
    by (simp_all add: admission_time_def PollingLinkQueue_ctor_def polling_run_def Link_ctor_def)
  from send_impl_stamps_and_enqueues [OF h1 h2 h3 h4 h5 h7 h6]
  obtain s' e' where r: "send_impl 0 3 (Some 0) polling_run = (Inr (), s')"
    "heap_get (events s') 0 = Some e'"
    "delivery_time e' = currentSimCycle polling_run + 3 + latency ?L"
    "getOrderTag e' = ucast (tag ?L)"
    "delivery_info e' = link_delivery_info ?L"
    "in_send_queue 0 0 s'"
    "\<forall>r R. heap_get (links polling_run) r = Some R \<and> pair_link R = Some 0
        \<longrightarrow> in_recv_queue 0 r s'"
    by blast
  have "delivery_time e' = 14" "getOrderTag e' = 7" "delivery_info e' = 0"
    using r(3,4,5) by (simp_all add: polling_run_def Link_ctor_def)
  moreover have "heap_get (links polling_run) 1
      = Some ((Link_ctor 7)\<lparr>pair_link := Some 0, type := POLL, mode := RUN, send_queue := Some 1\<rparr>)"
    by (simp add: polling_run_def heap_get_def)
  with r(7) have "in_recv_queue 0 1 s'" by simp
  ultimately show ?thesis using r(1,2,6) h1 h3 h5 h7' by blast
qed


text \<open>
  C5. For every link whose mode is \<open>INIT\<close> or \<open>COMPLETE\<close>, \<^verbatim>\<open>send(d, e)\<close>, with an event or
  with none, ends in the fatal error of its phase, and the state at that point is the
  state before the call: no queue has received an event, no \<^verbatim>\<open>NullEvent\<close> has been
  allocated, and no event has been stamped.
\<close>

theorem send_impl_outside_run_fatal:
  fixes s :: "'t::len Simulation_impl"
  assumes "heap_get (links s) l = Some L"
    and "mode L = INIT \<or> mode L = COMPLETE"
  shows "send_impl l d event s
           = (Inl (Fatal (if mode L = INIT then SendRecvDuringInit else SendRecvDuringComplete)), s)"
  using assms by (auto simp: send_impl_def)

theorem send_impl_outside_run_fatal_witness:
  "heap_get (links paired_links) 0 = Some ((Link_ctor 7)\<lparr>pair_link := Some 1\<rparr>)
   \<and> mode ((Link_ctor (7 :: 32 word))\<lparr>pair_link := Some 1\<rparr>) = INIT
   \<and> send_impl 0 0 (Some 0) paired_links = (Inl (Fatal SendRecvDuringInit), paired_links)
   \<and> heap_get (links complete_untimed) 0
        = Some ((Link_ctor 7)\<lparr>pair_link := Some 1, type := POLL, mode := COMPLETE\<rparr>)
   \<and> send_impl 0 0 None complete_untimed = (Inl (Fatal SendRecvDuringComplete), complete_untimed)"
proof -
  let ?L = "(Link_ctor (7 :: 32 word))\<lparr>pair_link := Some 1\<rparr>"
  let ?K = "(Link_ctor (7 :: 32 word))\<lparr>pair_link := Some 1, type := POLL, mode := COMPLETE\<rparr>"
  have h1: "heap_get (links paired_links) 0 = Some ?L"
    by (simp add: paired_links_def heap_get_def)
  have h2: "mode ?L = INIT \<or> mode ?L = COMPLETE" by (simp add: Link_ctor_def)
  have k1: "heap_get (links complete_untimed) 0 = Some ?K"
    by (simp add: complete_untimed_def heap_get_def)
  have k2: "mode ?K = INIT \<or> mode ?K = COMPLETE" by simp
  from send_impl_outside_run_fatal [OF h1 h2, of 0 "Some 0"]
    send_impl_outside_run_fatal [OF k1 k2, of 0 None] h1 k1
  show ?thesis by (simp add: Link_ctor_def)
qed

text \<open>
  C10. A link built by either constructor has latency 1, mode \<open>INIT\<close>, kind
  \<open>UNINITIALIZED\<close>, delivery info 0, a null send queue, a null pair link, default time
  base 0 and no profile tools; its tag is the constructor's argument, and \<open>- 1\<close> for the
  default constructor. Hence a send on a link in run mode whose latency is still the
  constructor's stamps the event with the clock plus the delay plus one, whenever that
  sum is not before the time the link's queue admits from (it has not wrapped around).
\<close>

theorem Link_ctor_defaults:
  fixes s :: "'t::len Simulation_impl" and tg :: "'t word"
  shows "Link_ctor tg =
           \<lparr>send_queue = None, link_delivery_info = 0, defaultTimeBase = 0, latency = 1,
            pair_link = None, type = UNINITIALIZED, mode = INIT, tag = tg,
            profile_tools = None\<rparr>
       \<and> (Link_default_ctor :: 't Link) = Link_ctor (- 1)
       \<and> latency (Link_ctor tg) = 1
       \<and> latency (Link_default_ctor :: 't Link) = 1
       \<and> (heap_get (links s) l = Some L \<and> latency L = latency (Link_ctor tg) \<and> mode L = RUN
            \<and> heap_get (events s) ev = Some e
            \<and> send_queue L = Some qa \<and> heap_get (queues s) qa = Some q
            \<and> admission_time (kind q) s \<le> currentSimCycle s + d + 1
            \<and> (kind q = TimeVortex \<longrightarrow>
                  \<not> list_ex (\<lambda>a. heap_get (events s) a = None) (items q))
          \<longrightarrow> (\<exists>s' e'. send_impl l d (Some ev) s = (Inr (), s')
                 \<and> heap_get (events s') ev = Some e'
                 \<and> delivery_time e' = currentSimCycle s + d + 1))"
proof (intro conjI impI)
  assume h: "heap_get (links s) l = Some L \<and> latency L = latency (Link_ctor tg) \<and> mode L = RUN
            \<and> heap_get (events s) ev = Some e
            \<and> send_queue L = Some qa \<and> heap_get (queues s) qa = Some q
            \<and> admission_time (kind q) s \<le> currentSimCycle s + d + 1
            \<and> (kind q = TimeVortex \<longrightarrow>
                  \<not> list_ex (\<lambda>a. heap_get (events s) a = None) (items q))"
  then have lat: "latency L = 1" by (simp add: Link_ctor_def)
  from h lat have adm: "admission_time (kind q) s \<le> currentSimCycle s + d + latency L"
    by simp
  from h adm send_impl_run [of s l L ev e qa q d]
  obtain s' e' where "send_impl l d (Some ev) s = (Inr (), s')"
    "heap_get (events s') ev = Some e'"
    "delivery_time e' = currentSimCycle s + d + latency L"
    by blast
  with lat show "\<exists>s' e'. send_impl l d (Some ev) s = (Inr (), s')
                 \<and> heap_get (events s') ev = Some e'
                 \<and> delivery_time e' = currentSimCycle s + d + 1"
    by simp
qed (simp_all add: Link_ctor_def Link_default_ctor_def)

theorem Link_ctor_defaults_witness:
  "heap_get (links polling_run) 0
     = Some ((Link_ctor 7)\<lparr>pair_link := Some 1, type := POLL, mode := RUN, send_queue := Some 2\<rparr>)
   \<and> latency ((Link_ctor (7 :: 32 word))\<lparr>pair_link := Some 1, type := POLL, mode := RUN,
                 send_queue := Some 2\<rparr>) = latency (Link_ctor (7 :: 32 word))
   \<and> heap_get (events polling_run) 0 = Some Event_ctor
   \<and> heap_get (queues polling_run) 2 = Some PollingLinkQueue_ctor
   \<and> currentSimCycle polling_run = 10
   \<and> admission_time (kind PollingLinkQueue_ctor) polling_run \<le> currentSimCycle polling_run + 3 + 1
   \<and> (\<exists>s' e'. send_impl 0 3 (Some 0) polling_run = (Inr (), s')
         \<and> heap_get (events s') 0 = Some e' \<and> delivery_time e' = 10 + 3 + 1)"
proof -
  let ?L = "(Link_ctor (7 :: 32 word))\<lparr>pair_link := Some 1, type := POLL, mode := RUN,
              send_queue := Some 2\<rparr>"
  have h1: "heap_get (links polling_run) 0 = Some ?L"
    by (simp add: polling_run_def heap_get_def)
  have h2: "latency ?L = latency (Link_ctor (7 :: 32 word))" "mode ?L = RUN"
    "send_queue ?L = Some 2"
    by simp_all
  have h3: "heap_get (events polling_run) 0 = Some Event_ctor"
    by (simp add: polling_run_def heap_get_def)
  have h5: "heap_get (queues polling_run) 2 = Some PollingLinkQueue_ctor"
    by (simp add: polling_run_def heap_get_def)
  have h6: "kind PollingLinkQueue_ctor = TimeVortex \<longrightarrow>
      \<not> list_ex (\<lambda>a. heap_get (events polling_run) a = None) (items PollingLinkQueue_ctor)"
    by (simp add: PollingLinkQueue_ctor_def)
  have c: "currentSimCycle polling_run = 10" by (simp add: polling_run_def)
  have h7: "admission_time (kind PollingLinkQueue_ctor) polling_run
              \<le> currentSimCycle polling_run + 3 + 1"
    by (simp add: admission_time_def PollingLinkQueue_ctor_def polling_run_def)
  from Link_ctor_defaults [of 7 polling_run 0 ?L 0 Event_ctor 2 PollingLinkQueue_ctor 3]
    h1 h2 h3 h5 h6 h7
  have "\<exists>s' e'. send_impl 0 3 (Some 0) polling_run = (Inr (), s')
         \<and> heap_get (events s') 0 = Some e'
         \<and> delivery_time e' = currentSimCycle polling_run + 3 + 1"
    by blast
  with h1 h2 h3 h5 c h7 show ?thesis by simp
qed


section \<open>Properties of the untimed exchange\<close>

text \<open>
  \<^verbatim>\<open>recvUntimedData\<close> on a well-formed store: null when the pair has no queue or an empty
  one; otherwise the front of the pair's queue, popped, if its delivery time is at most
  the untimed phase, and null, with nothing changed, if not.
\<close>

lemma recvUntimedData_no_queue:
  fixes s :: "'t::len Simulation_impl"
  assumes "heap_get (links s) r = Some R" and "pair_link R = Some l"
    and "heap_get (links s) l = Some L" and "send_queue L = None"
  shows "recvUntimedData r s = (Inr None, s)"
  using assms by (simp add: recvUntimedData_def deref_def)

lemma recvUntimedData_drained:
  fixes s :: "'t::len Simulation_impl"
  assumes R: "heap_get (links s) r = Some R" and pr: "pair_link R = Some l"
    and L: "heap_get (links s) l = Some L" and sq: "send_queue L = Some qa"
    and q: "heap_get (queues s) qa = Some q" and it: "items q = []"
  shows "recvUntimedData r s = (Inr None, s)"
  using assms
  by (simp add: recvUntimedData_def deref_def queue_empty_def)

lemma recvUntimedData_front:
  fixes s :: "'t::len Simulation_impl"
  assumes R: "heap_get (links s) r = Some R" and pr: "pair_link R = Some l"
    and L: "heap_get (links s) l = Some L" and sq: "send_queue L = Some qa"
    and q: "heap_get (queues s) qa = Some q" and it: "items q = x # rest"
    and e: "heap_get (events s) x = Some ex"
  shows "recvUntimedData r s =
     (if delivery_time ex \<le> untimed_phase s
      then (Inr (Some x), s\<lparr>queues := heap_set qa (q\<lparr>items := rest\<rparr>) (queues s)\<rparr>)
      else (Inr None, s))"
  using assms
  by (simp add: recvUntimedData_def deref_def queue_empty_def queue_front_def
      getDeliveryTime_def queue_pop_def)

text \<open>
  What \<^verbatim>\<open>sendUntimedData\<close> does before it inserts: the lazily created queue, the message
  count and the stamps. \<open>q\<close> is the queue that receives the event, as it is before the
  insertion: the new, empty init queue if the link had none.
\<close>

lemma sendUntimedData_as_insert:
  fixes s :: "'t::len Simulation_impl"
  assumes L: "heap_get (links s) l = Some L"
    and nr: "mode L \<noteq> RUN"
    and e: "heap_get (events s) ev = Some e"
    and q: "send_queue L = None \<and> q = InitQueue_ctor
            \<or> (\<exists>qa. send_queue L = Some qa \<and> heap_get (queues s) qa = Some q)"
  shows "\<exists>s3 qa. sendUntimedData l (Some ev) s = queue_insert (Some qa) ev s3
     \<and> (send_queue L = None \<longrightarrow> heap_get (queues s) qa = None)
     \<and> (send_queue L \<noteq> None \<longrightarrow> send_queue L = Some qa)
     \<and> heap_get (links s3) l = Some (L\<lparr>send_queue := Some qa\<rparr>)
     \<and> (\<forall>a. a \<noteq> l \<longrightarrow> heap_get (links s3) a = heap_get (links s) a)
     \<and> heap_get (queues s3) qa = Some q
     \<and> (\<forall>b. b \<noteq> qa \<longrightarrow> heap_get (queues s3) b = heap_get (queues s) b)
     \<and> untimed_msg_count s3 = untimed_msg_count s + 1
     \<and> untimed_phase s3 = untimed_phase s
     \<and> currentSimCycle s3 = currentSimCycle s
     \<and> heap_get (events s3) ev
          = Some (setDeliveryInfo (tag L) (link_delivery_info L)
                   (setDeliveryTime (untimed_phase s + 1) e))
     \<and> (\<forall>a. a \<noteq> ev \<longrightarrow> heap_get (events s3) a = heap_get (events s) a)"
proof -
  let ?e1 = "setDeliveryInfo (tag L) (link_delivery_info L)
               (setDeliveryTime (untimed_phase s + 1) e)"
  have ll: "l < length (links s)" and el: "ev < length (events s)"
    using L e by (auto dest: heap_get_Some_less)
  show ?thesis
  proof (cases "send_queue L")
    case None
    with q have qi: "q = InitQueue_ctor" by auto
    let ?qa = "length (queues s)"
    let ?sa = "s\<lparr>queues := queues s @ [Some InitQueue_ctor]\<rparr>"
    let ?s3 = "s\<lparr>queues := queues s @ [Some InitQueue_ctor],
                 links := heap_set l (L\<lparr>send_queue := Some ?qa\<rparr>) (links s),
                 untimed_msg_count := untimed_msg_count s + 1,
                 events := heap_set ev ?e1 (events s)\<rparr>"
    have La: "heap_get (links ?sa) l = Some L" using L by simp
    have "sendUntimedData l (Some ev) s = queue_insert (Some ?qa) ev ?s3"
      using L nr None e ll el
      by (simp add: sendUntimedData_def heap_new_def upd_link_live [OF La] Let_def
          heap_get_heap_set)
    moreover have "heap_get (queues s) ?qa = None" by (simp add: heap_get_def)
    moreover have "heap_get (links ?s3) l = Some (L\<lparr>send_queue := Some ?qa\<rparr>)"
      "\<forall>a. a \<noteq> l \<longrightarrow> heap_get (links ?s3) a = heap_get (links s) a"
      using ll by (simp_all add: heap_get_heap_set)
    moreover have "heap_get (queues ?s3) ?qa = Some q"
      "\<forall>b. b \<noteq> ?qa \<longrightarrow> heap_get (queues ?s3) b = heap_get (queues s) b"
      by (simp_all add: heap_get_append_new qi)
    moreover have "heap_get (events ?s3) ev = Some ?e1"
      "\<forall>a. a \<noteq> ev \<longrightarrow> heap_get (events ?s3) a = heap_get (events s) a"
      using el by (simp_all add: heap_get_heap_set)
    ultimately show ?thesis using None
      by (intro exI [of _ ?s3] exI [of _ ?qa]) simp
  next
    case (Some qa)
    with q have qq: "heap_get (queues s) qa = Some q" by auto
    let ?s3 = "s\<lparr>untimed_msg_count := untimed_msg_count s + 1,
                 events := heap_set ev ?e1 (events s)\<rparr>"
    have "sendUntimedData l (Some ev) s = queue_insert (Some qa) ev ?s3"
      using L nr Some e by (simp add: sendUntimedData_def Let_def)
    moreover have "L\<lparr>send_queue := Some qa\<rparr> = L" using Some by simp
    moreover have "heap_get (events ?s3) ev = Some ?e1"
      "\<forall>a. a \<noteq> ev \<longrightarrow> heap_get (events ?s3) a = heap_get (events s) a"
      using el by (simp_all add: heap_get_heap_set)
    ultimately show ?thesis using Some L qq
      by (intro exI [of _ ?s3] exI [of _ qa]) simp
  qed
qed

lemma sendUntimedData_ok:
  fixes s :: "'t::len Simulation_impl"
  assumes L: "heap_get (links s) l = Some L"
    and nr: "mode L \<noteq> RUN"
    and e: "heap_get (events s) ev = Some e"
    and q: "send_queue L = None \<and> q = InitQueue_ctor
            \<or> (\<exists>qa. send_queue L = Some qa \<and> heap_get (queues s) qa = Some q)"
    and adm: "admission_time (kind q) s \<le> untimed_phase s + 1"
    and live: "kind q = TimeVortex \<longrightarrow> \<not> list_ex (\<lambda>a. heap_get (events s) a = None) (items q)"
  shows "\<exists>s1 e1 qa q1.
       sendUntimedData l (Some ev) s = (Inr (), s1)
     \<and> (send_queue L = None \<longrightarrow> heap_get (queues s) qa = None)
     \<and> (send_queue L \<noteq> None \<longrightarrow> send_queue L = Some qa)
     \<and> heap_get (links s1) l = Some (L\<lparr>send_queue := Some qa\<rparr>)
     \<and> (\<forall>a. a \<noteq> l \<longrightarrow> heap_get (links s1) a = heap_get (links s) a)
     \<and> heap_get (queues s1) qa = Some q1 \<and> kind q1 = kind q
     \<and> set (items q1) = insert ev (set (items q))
     \<and> (kind q \<noteq> TimeVortex \<longrightarrow> items q1 = items q @ [ev])
     \<and> (items q = [] \<longrightarrow> items q1 = [ev])
     \<and> (\<forall>b. b \<noteq> qa \<longrightarrow> heap_get (queues s1) b = heap_get (queues s) b)
     \<and> untimed_msg_count s1 = untimed_msg_count s + 1
     \<and> untimed_phase s1 = untimed_phase s
     \<and> heap_get (events s1) ev = Some e1
     \<and> delivery_time e1 = untimed_phase s + 1
     \<and> getOrderTag e1 = ucast (tag L)
     \<and> delivery_info e1 = link_delivery_info L
     \<and> (\<forall>a. a \<noteq> ev \<longrightarrow> heap_get (events s1) a = heap_get (events s) a)"
proof -
  let ?e1 = "setDeliveryInfo (tag L) (link_delivery_info L)
               (setDeliveryTime (untimed_phase s + 1) e)"
  from sendUntimedData_as_insert [OF L nr e q]
  obtain s3 qa where run: "sendUntimedData l (Some ev) s = queue_insert (Some qa) ev s3"
    and fresh: "send_queue L = None \<longrightarrow> heap_get (queues s) qa = None"
    and same: "send_queue L \<noteq> None \<longrightarrow> send_queue L = Some qa"
    and l3: "heap_get (links s3) l = Some (L\<lparr>send_queue := Some qa\<rparr>)"
      "\<forall>a. a \<noteq> l \<longrightarrow> heap_get (links s3) a = heap_get (links s) a"
    and q3: "heap_get (queues s3) qa = Some q"
      "\<forall>b. b \<noteq> qa \<longrightarrow> heap_get (queues s3) b = heap_get (queues s) b"
    and c3: "untimed_msg_count s3 = untimed_msg_count s + 1"
      "untimed_phase s3 = untimed_phase s" "currentSimCycle s3 = currentSimCycle s"
    and e3: "heap_get (events s3) ev = Some ?e1"
      "\<forall>a. a \<noteq> ev \<longrightarrow> heap_get (events s3) a = heap_get (events s) a"
    by (elim exE conjE) (rule that, assumption+)
  have t1: "delivery_time ?e1 = untimed_phase s + 1"
    and d1: "delivery_info ?e1 = link_delivery_info L"
    by (simp_all add: setDeliveryInfo_def setDeliveryTime_def setOrderTag_def)
  have "admission_time (kind q) s3 = admission_time (kind q) s"
    using c3 by (simp add: admission_time_def split: QueueKind.split)
  with adm t1 have adm3: "admission_time (kind q) s3 \<le> delivery_time ?e1" by simp
  have live3: "kind q = TimeVortex \<longrightarrow> \<not> list_ex (\<lambda>a. heap_get (events s3) a = None) (items q)"
  proof (rule impI)
    assume "kind q = TimeVortex"
    with live have "\<forall>a \<in> set (items q). heap_get (events s) a \<noteq> None"
      by (simp add: list_ex_iff)
    then have "\<forall>a \<in> set (items q). heap_get (events s3) a \<noteq> None"
      using e3 by (metis option.distinct(1))
    then show "\<not> list_ex (\<lambda>a. heap_get (events s3) a = None) (items q)"
      by (simp add: list_ex_iff)
  qed
  from queue_insert_ok [OF q3(1) e3(1) adm3 live3]
  obtain s1 q1 e1 where ins: "queue_insert (Some qa) ev s3 = (Inr (), s1)"
    and r: "heap_get (queues s1) qa = Some q1" "kind q1 = kind q"
      "set (items q1) = insert ev (set (items q))"
      "kind q \<noteq> TimeVortex \<longrightarrow> items q1 = items q @ [ev]"
      "items q = [] \<longrightarrow> items q1 = [ev]"
      "\<forall>b. b \<noteq> qa \<longrightarrow> heap_get (queues s1) b = heap_get (queues s3) b"
      "links s1 = links s3" "untimed_phase s1 = untimed_phase s3"
      "untimed_msg_count s1 = untimed_msg_count s3"
      "heap_get (events s1) ev = Some e1" "delivery_time e1 = delivery_time ?e1"
      "priority_order e1 = priority_order ?e1" "delivery_info e1 = delivery_info ?e1"
      "\<forall>a. a \<noteq> ev \<longrightarrow> heap_get (events s1) a = heap_get (events s3) a"
    by (elim exE conjE) (rule that, assumption+)
  have "getOrderTag e1 = getOrderTag ?e1" using r(12) by (simp add: getOrderTag_def)
  then have tg: "getOrderTag e1 = ucast (tag L)" by (simp add: getOrderTag_setDeliveryInfo)
  have a: "sendUntimedData l (Some ev) s = (Inr (), s1)" using run ins by simp
  have b: "heap_get (links s1) l = Some (L\<lparr>send_queue := Some qa\<rparr>)"
    "\<forall>a. a \<noteq> l \<longrightarrow> heap_get (links s1) a = heap_get (links s) a"
    using l3 r(7) by simp_all
  have c: "\<forall>b. b \<noteq> qa \<longrightarrow> heap_get (queues s1) b = heap_get (queues s) b"
    using q3(2) r(6) by simp
  have d: "untimed_msg_count s1 = untimed_msg_count s + 1" "untimed_phase s1 = untimed_phase s"
    using c3 r(8,9) by simp_all
  have f: "delivery_time e1 = untimed_phase s + 1" "delivery_info e1 = link_delivery_info L"
    using r(11,13) t1 d1 by simp_all
  have g: "\<forall>a. a \<noteq> ev \<longrightarrow> heap_get (events s1) a = heap_get (events s) a"
    using e3(2) r(14) by simp
  from a fresh same b r(1-5) c d r(10) f(1) tg f(2) g show ?thesis
    apply -
    apply (intro exI [of _ s1] exI [of _ e1] exI [of _ qa] exI [of _ q1] conjI)
    apply assumption+
    done
qed

text \<open>
  C6. Let link \<open>l\<close> be outside run mode, its send queue null or a live queue of any kind,
  and let the delivery time \<open>untimed_phase + 1\<close> not be before the time that queue admits
  from (the sum has not wrapped around). Then \<^verbatim>\<open>sendUntimedData(e)\<close> on \<open>l\<close> returns
  normally. If the send queue was null, it is now an init queue at an address that was
  free; otherwise it is the queue it was. The queue has gained \<open>e\<close>, at its tail unless
  it is the time vortex; the untimed message count has grown by one; \<open>e\<close> carries the
  delivery time \<open>untimed_phase + 1\<close>, the order tag of \<open>l\<close>'s tag and \<open>l\<close>'s delivery info;
  no other link, queue or event has changed. If \<open>e\<close> is then alone in the queue, then,
  whatever value \<open>p\<close> the untimed phase takes, \<^verbatim>\<open>recvUntimedData\<close> on a link \<open>r\<close> whose pair
  is \<open>l\<close> returns \<open>e\<close> if the delivery time of \<open>e\<close> is at most \<open>p\<close>, and then a second
  call returns null; otherwise it returns null and changes nothing. In general, in any
  state \<open>t\<close>, \<^verbatim>\<open>recvUntimedData\<close> on a link whose pair is live returns null if the pair has
  no queue or an empty one, and otherwise returns and pops the front of the pair's queue
  exactly when the front's delivery time is at most the untimed phase.
\<close>

theorem untimed_send_then_recv:
  fixes s t :: "'t::len Simulation_impl"
  assumes L: "heap_get (links s) l = Some L"
    and nr: "mode L \<noteq> RUN"
    and e: "heap_get (events s) ev = Some e"
    and q: "send_queue L = None \<and> q = InitQueue_ctor
            \<or> (\<exists>qa. send_queue L = Some qa \<and> heap_get (queues s) qa = Some q)"
    and adm: "admission_time (kind q) s \<le> untimed_phase s + 1"
    and live: "kind q = TimeVortex \<longrightarrow> \<not> list_ex (\<lambda>a. heap_get (events s) a = None) (items q)"
    and R: "heap_get (links s) r = Some R" and pr: "pair_link R = Some l"
  shows "(\<exists>s1 e1 qa q1.
       sendUntimedData l (Some ev) s = (Inr (), s1)
     \<and> (send_queue L = None \<longrightarrow> heap_get (queues s) qa = None \<and> kind q1 = InitQueue)
     \<and> (send_queue L \<noteq> None \<longrightarrow> send_queue L = Some qa)
     \<and> heap_get (links s1) l = Some (L\<lparr>send_queue := Some qa\<rparr>)
     \<and> (\<forall>a. a \<noteq> l \<longrightarrow> heap_get (links s1) a = heap_get (links s) a)
     \<and> heap_get (queues s1) qa = Some q1 \<and> kind q1 = kind q
     \<and> set (items q1) = insert ev (set (items q))
     \<and> (kind q \<noteq> TimeVortex \<longrightarrow> items q1 = items q @ [ev])
     \<and> (\<forall>b. b \<noteq> qa \<longrightarrow> heap_get (queues s1) b = heap_get (queues s) b)
     \<and> untimed_msg_count s1 = untimed_msg_count s + 1
     \<and> untimed_phase s1 = untimed_phase s
     \<and> heap_get (events s1) ev = Some e1
     \<and> delivery_time e1 = untimed_phase s + 1
     \<and> getOrderTag e1 = ucast (tag L)
     \<and> delivery_info e1 = link_delivery_info L
     \<and> (\<forall>a. a \<noteq> ev \<longrightarrow> heap_get (events s1) a = heap_get (events s) a)
     \<and> (items q = [] \<longrightarrow>
          (\<forall>p. if delivery_time e1 \<le> p
             then \<exists>s2. recvUntimedData r (s1\<lparr>untimed_phase := p\<rparr>) = (Inr (Some ev), s2)
                     \<and> recvUntimedData r s2 = (Inr None, s2)
             else recvUntimedData r (s1\<lparr>untimed_phase := p\<rparr>)
                    = (Inr None, s1\<lparr>untimed_phase := p\<rparr>))))
   \<and> (heap_get (links t) r' = Some R' \<and> pair_link R' = Some l'
        \<and> heap_get (links t) l' = Some L' \<longrightarrow>
          (send_queue L' = None \<longrightarrow> recvUntimedData r' t = (Inr None, t))
        \<and> (\<forall>qa' q'. send_queue L' = Some qa' \<and> heap_get (queues t) qa' = Some q' \<longrightarrow>
              (items q' = [] \<longrightarrow> recvUntimedData r' t = (Inr None, t))
            \<and> (\<forall>x rest ex. items q' = x # rest \<and> heap_get (events t) x = Some ex \<longrightarrow>
                  recvUntimedData r' t =
                    (if delivery_time ex \<le> untimed_phase t
                     then (Inr (Some x),
                           t\<lparr>queues := heap_set qa' (q'\<lparr>items := rest\<rparr>) (queues t)\<rparr>)
                     else (Inr None, t)))))"
proof (rule conjI)
  from sendUntimedData_ok [OF L nr e q adm live]
  obtain s1 e1 qa q1 where send: "sendUntimedData l (Some ev) s = (Inr (), s1)"
    and fresh: "send_queue L = None \<longrightarrow> heap_get (queues s) qa = None"
    and same: "send_queue L \<noteq> None \<longrightarrow> send_queue L = Some qa"
    and l1: "heap_get (links s1) l = Some (L\<lparr>send_queue := Some qa\<rparr>)"
      "\<forall>a. a \<noteq> l \<longrightarrow> heap_get (links s1) a = heap_get (links s) a"
    and q1: "heap_get (queues s1) qa = Some q1" "kind q1 = kind q"
      "set (items q1) = insert ev (set (items q))"
      "kind q \<noteq> TimeVortex \<longrightarrow> items q1 = items q @ [ev]"
      "items q = [] \<longrightarrow> items q1 = [ev]"
      "\<forall>b. b \<noteq> qa \<longrightarrow> heap_get (queues s1) b = heap_get (queues s) b"
    and c1: "untimed_msg_count s1 = untimed_msg_count s + 1" "untimed_phase s1 = untimed_phase s"
    and e1: "heap_get (events s1) ev = Some e1" "delivery_time e1 = untimed_phase s + 1"
      "getOrderTag e1 = ucast (tag L)" "delivery_info e1 = link_delivery_info L"
      "\<forall>a. a \<noteq> ev \<longrightarrow> heap_get (events s1) a = heap_get (events s) a"
    by (elim exE conjE) (rule that, assumption+)
  have kindi: "send_queue L = None \<longrightarrow> kind q1 = InitQueue"
    using q q1(2) by (auto simp: InitQueue_ctor_def)
  have "\<exists>R1. heap_get (links s1) r = Some R1 \<and> pair_link R1 = Some l"
  proof (cases "r = l")
    case True
    with R L pr l1(1) show ?thesis by simp
  next
    case False
    with R pr l1(2) show ?thesis by simp
  qed
  then obtain R1 where R1: "heap_get (links s1) r = Some R1" "pair_link R1 = Some l" by blast
  have recv: "if delivery_time e1 \<le> p
            then \<exists>s2. recvUntimedData r (s1\<lparr>untimed_phase := p\<rparr>) = (Inr (Some ev), s2)
                    \<and> recvUntimedData r s2 = (Inr None, s2)
            else recvUntimedData r (s1\<lparr>untimed_phase := p\<rparr>)
                   = (Inr None, s1\<lparr>untimed_phase := p\<rparr>)" if empty: "items q = []" for p
  proof -
    let ?sp = "s1\<lparr>untimed_phase := p\<rparr>"
    have it: "items q1 = [ev]" using empty q1(5) by simp
    have a: "heap_get (links ?sp) r = Some R1"
      "heap_get (links ?sp) l = Some (L\<lparr>send_queue := Some qa\<rparr>)"
      "heap_get (queues ?sp) qa = Some q1" "heap_get (events ?sp) ev = Some e1"
      using R1 l1 q1 e1 by simp_all
    have r1: "recvUntimedData r ?sp =
     (if delivery_time e1 \<le> untimed_phase ?sp
      then (Inr (Some ev), ?sp\<lparr>queues := heap_set qa (q1\<lparr>items := []\<rparr>) (queues ?sp)\<rparr>)
      else (Inr None, ?sp))"
      by (rule recvUntimedData_front [OF a(1) R1(2) a(2) _ a(3) it a(4)]) simp
    let ?s2 = "?sp\<lparr>queues := heap_set qa (q1\<lparr>items := []\<rparr>) (queues ?sp)\<rparr>"
    have b: "heap_get (links ?s2) r = Some R1"
      "heap_get (links ?s2) l = Some (L\<lparr>send_queue := Some qa\<rparr>)"
      "heap_get (queues ?s2) qa = Some (q1\<lparr>items := []\<rparr>)"
      using R1 l1 q1 by (simp_all add: heap_get_heap_set heap_get_Some_less)
    have r2: "recvUntimedData r ?s2 = (Inr None, ?s2)"
      by (rule recvUntimedData_drained [OF b(1) R1(2) b(2) _ b(3)]) simp_all
    show ?thesis using r1 r2 by simp
  qed
  have fk: "send_queue L = None \<longrightarrow> heap_get (queues s) qa = None \<and> kind q1 = InitQueue"
    using fresh kindi by simp
  have recv': "items q = [] \<longrightarrow>
          (\<forall>p. if delivery_time e1 \<le> p
             then \<exists>s2. recvUntimedData r (s1\<lparr>untimed_phase := p\<rparr>) = (Inr (Some ev), s2)
                     \<and> recvUntimedData r s2 = (Inr None, s2)
             else recvUntimedData r (s1\<lparr>untimed_phase := p\<rparr>)
                    = (Inr None, s1\<lparr>untimed_phase := p\<rparr>))"
    by (intro impI allI) (rule recv)
  from send fk same l1 q1(1-4,6) c1 e1 recv'
  show "\<exists>s1 e1 qa q1.
       sendUntimedData l (Some ev) s = (Inr (), s1)
     \<and> (send_queue L = None \<longrightarrow> heap_get (queues s) qa = None \<and> kind q1 = InitQueue)
     \<and> (send_queue L \<noteq> None \<longrightarrow> send_queue L = Some qa)
     \<and> heap_get (links s1) l = Some (L\<lparr>send_queue := Some qa\<rparr>)
     \<and> (\<forall>a. a \<noteq> l \<longrightarrow> heap_get (links s1) a = heap_get (links s) a)
     \<and> heap_get (queues s1) qa = Some q1 \<and> kind q1 = kind q
     \<and> set (items q1) = insert ev (set (items q))
     \<and> (kind q \<noteq> TimeVortex \<longrightarrow> items q1 = items q @ [ev])
     \<and> (\<forall>b. b \<noteq> qa \<longrightarrow> heap_get (queues s1) b = heap_get (queues s) b)
     \<and> untimed_msg_count s1 = untimed_msg_count s + 1
     \<and> untimed_phase s1 = untimed_phase s
     \<and> heap_get (events s1) ev = Some e1
     \<and> delivery_time e1 = untimed_phase s + 1
     \<and> getOrderTag e1 = ucast (tag L)
     \<and> delivery_info e1 = link_delivery_info L
     \<and> (\<forall>a. a \<noteq> ev \<longrightarrow> heap_get (events s1) a = heap_get (events s) a)
     \<and> (items q = [] \<longrightarrow>
          (\<forall>p. if delivery_time e1 \<le> p
             then \<exists>s2. recvUntimedData r (s1\<lparr>untimed_phase := p\<rparr>) = (Inr (Some ev), s2)
                     \<and> recvUntimedData r s2 = (Inr None, s2)
             else recvUntimedData r (s1\<lparr>untimed_phase := p\<rparr>)
                    = (Inr None, s1\<lparr>untimed_phase := p\<rparr>)))"
    apply -
    apply (intro exI [of _ s1] exI [of _ e1] exI [of _ qa] exI [of _ q1] conjI)
    apply assumption+
    done
next
  show "heap_get (links t) r' = Some R' \<and> pair_link R' = Some l'
        \<and> heap_get (links t) l' = Some L' \<longrightarrow>
          (send_queue L' = None \<longrightarrow> recvUntimedData r' t = (Inr None, t))
        \<and> (\<forall>qa' q'. send_queue L' = Some qa' \<and> heap_get (queues t) qa' = Some q' \<longrightarrow>
              (items q' = [] \<longrightarrow> recvUntimedData r' t = (Inr None, t))
            \<and> (\<forall>x rest ex. items q' = x # rest \<and> heap_get (events t) x = Some ex \<longrightarrow>
                  recvUntimedData r' t =
                    (if delivery_time ex \<le> untimed_phase t
                     then (Inr (Some x),
                           t\<lparr>queues := heap_set qa' (q'\<lparr>items := rest\<rparr>) (queues t)\<rparr>)
                     else (Inr None, t))))"
    using recvUntimedData_no_queue [of t r' R' l' L']
      recvUntimedData_drained [of t r' R' l' L']
      recvUntimedData_front [of t r' R' l' L']
    by blast
qed

theorem untimed_send_then_recv_witness:
  "heap_get (links paired_links) 1 = Some ((Link_ctor 7)\<lparr>pair_link := Some 0\<rparr>)
   \<and> heap_get (links paired_links) 0 = Some ((Link_ctor 7)\<lparr>pair_link := Some 1\<rparr>)
   \<and> heap_get (events paired_links) 0 = Some Event_ctor
   \<and> admission_time (kind InitQueue_ctor) paired_links \<le> untimed_phase paired_links + 1
   \<and> (\<exists>s1 e1 qa q1. sendUntimedData 1 (Some 0) paired_links = (Inr (), s1)
         \<and> heap_get (queues paired_links) qa = None
         \<and> heap_get (queues s1) qa = Some q1 \<and> kind q1 = InitQueue \<and> items q1 = [0]
         \<and> untimed_msg_count s1 = 1
         \<and> heap_get (events s1) 0 = Some e1 \<and> delivery_time e1 = 1
         \<and> recvUntimedData 0 (s1\<lparr>untimed_phase := 0\<rparr>) = (Inr None, s1\<lparr>untimed_phase := 0\<rparr>)
         \<and> (\<exists>s2. recvUntimedData 0 (s1\<lparr>untimed_phase := 1\<rparr>) = (Inr (Some 0), s2)
               \<and> recvUntimedData 0 s2 = (Inr None, s2)))
   \<and> heap_get (links init_untimed_second) 1
        = Some ((Link_ctor 7)\<lparr>pair_link := Some 0, send_queue := Some 1\<rparr>)
   \<and> heap_get (links init_untimed_second) 0
        = Some ((Link_ctor 7)\<lparr>pair_link := Some 1, type := POLL\<rparr>)
   \<and> heap_get (queues init_untimed_second) 1 = Some (InitQueue_ctor\<lparr>items := [0]\<rparr>)
   \<and> heap_get (events init_untimed_second) 1 = Some Event_ctor
   \<and> admission_time (kind (InitQueue_ctor\<lparr>items := [0]\<rparr>)) init_untimed_second
        \<le> untimed_phase init_untimed_second + 1
   \<and> (\<exists>s1 q1 t1 t2. sendUntimedData 1 (Some 1) init_untimed_second = (Inr (), s1)
         \<and> heap_get (queues s1) 1 = Some q1 \<and> items q1 = [0, 1]
         \<and> untimed_msg_count s1 = 2
         \<and> recvUntimedData 0 (s1\<lparr>untimed_phase := 1\<rparr>) = (Inr (Some 0), t1)
         \<and> recvUntimedData 0 t1 = (Inr (Some 1), t2)
         \<and> recvUntimedData 0 t2 = (Inr None, t2))"
proof -
  let ?L = "(Link_ctor (7 :: 32 word))\<lparr>pair_link := Some 0\<rparr>"
  let ?R = "(Link_ctor (7 :: 32 word))\<lparr>pair_link := Some 1\<rparr>"
  have h1: "heap_get (links paired_links) 1 = Some ?L"
    and h5: "heap_get (links paired_links) 0 = Some ?R"
    and h4: "heap_get (events paired_links) 0 = Some Event_ctor"
    by (simp_all add: paired_links_def heap_get_def)
  have h2: "mode ?L \<noteq> RUN" and h3: "send_queue ?L = None" and h6: "pair_link ?R = Some 1"
    by (simp_all add: Link_ctor_def)
  have h7: "send_queue ?L = None \<and> InitQueue_ctor = InitQueue_ctor
            \<or> (\<exists>qa. send_queue ?L = Some qa
                  \<and> heap_get (queues paired_links) qa = Some InitQueue_ctor)"
    using h3 by simp
  have h8: "admission_time (kind InitQueue_ctor) paired_links \<le> untimed_phase paired_links + 1"
    by (simp add: admission_time_def InitQueue_ctor_def paired_links_def)
  have h9: "kind InitQueue_ctor = TimeVortex \<longrightarrow>
      \<not> list_ex (\<lambda>a. heap_get (events paired_links) a = None) (items InitQueue_ctor)"
    by (simp add: InitQueue_ctor_def)
  have first: "\<exists>s1 e1 qa q1. sendUntimedData 1 (Some 0) paired_links = (Inr (), s1)
         \<and> heap_get (queues paired_links) qa = None
         \<and> heap_get (queues s1) qa = Some q1 \<and> kind q1 = InitQueue \<and> items q1 = [0]
         \<and> untimed_msg_count s1 = 1
         \<and> heap_get (events s1) 0 = Some e1 \<and> delivery_time e1 = 1
         \<and> recvUntimedData 0 (s1\<lparr>untimed_phase := 0\<rparr>) = (Inr None, s1\<lparr>untimed_phase := 0\<rparr>)
         \<and> (\<exists>s2. recvUntimedData 0 (s1\<lparr>untimed_phase := 1\<rparr>) = (Inr (Some 0), s2)
               \<and> recvUntimedData 0 s2 = (Inr None, s2))"
  proof -
    from untimed_send_then_recv [OF h1 h2 h4 h7 h8 h9 h5 h6, THEN conjunct1]
    obtain s1 e1 qa q1 where r: "sendUntimedData 1 (Some 0) paired_links = (Inr (), s1)"
      "send_queue ?L = None \<longrightarrow> heap_get (queues paired_links) qa = None \<and> kind q1 = InitQueue"
      "heap_get (queues s1) qa = Some q1"
      "kind InitQueue_ctor \<noteq> TimeVortex \<longrightarrow> items q1 = items InitQueue_ctor @ [0]"
      "untimed_msg_count s1 = untimed_msg_count paired_links + 1"
      "heap_get (events s1) 0 = Some e1"
      "delivery_time e1 = untimed_phase paired_links + 1"
      and recv: "items InitQueue_ctor = [] \<longrightarrow>
          (\<forall>p. if delivery_time e1 \<le> p
            then \<exists>s2. recvUntimedData 0 (s1\<lparr>untimed_phase := p\<rparr>) = (Inr (Some 0), s2)
                    \<and> recvUntimedData 0 s2 = (Inr None, s2)
            else recvUntimedData 0 (s1\<lparr>untimed_phase := p\<rparr>)
                   = (Inr None, s1\<lparr>untimed_phase := p\<rparr>))"
      by (elim exE conjE) (rule that, assumption+)
    have t: "delivery_time e1 = 1" and c: "untimed_msg_count s1 = 1"
      using r(5,7) by (simp_all add: paired_links_def)
    have f: "heap_get (queues paired_links) qa = None" "kind q1 = InitQueue"
      using r(2) h3 by simp_all
    have it: "items q1 = [0]" using r(4) by (simp add: InitQueue_ctor_def)
    have recv': "\<And>p. if delivery_time e1 \<le> p
            then \<exists>s2. recvUntimedData 0 (s1\<lparr>untimed_phase := p\<rparr>) = (Inr (Some 0), s2)
                    \<and> recvUntimedData 0 s2 = (Inr None, s2)
            else recvUntimedData 0 (s1\<lparr>untimed_phase := p\<rparr>)
                   = (Inr None, s1\<lparr>untimed_phase := p\<rparr>)"
      using recv by (simp add: InitQueue_ctor_def)
    from recv' [of 0] recv' [of 1] t
    have "recvUntimedData 0 (s1\<lparr>untimed_phase := 0\<rparr>) = (Inr None, s1\<lparr>untimed_phase := 0\<rparr>)"
      and "\<exists>s2. recvUntimedData 0 (s1\<lparr>untimed_phase := 1\<rparr>) = (Inr (Some 0), s2)
               \<and> recvUntimedData 0 s2 = (Inr None, s2)"
      by simp_all
    with r(1,3,6) f it t c show ?thesis by blast
  qed
  let ?L2 = "(Link_ctor (7 :: 32 word))\<lparr>pair_link := Some 0, send_queue := Some 1\<rparr>"
  let ?R2 = "(Link_ctor (7 :: 32 word))\<lparr>pair_link := Some 1, type := POLL\<rparr>"
  let ?q = "InitQueue_ctor\<lparr>items := [0]\<rparr>"
  let ?e0 = "setDeliveryInfo (7 :: 32 word) 0 (setDeliveryTime 1 Event_ctor)"
  have g1: "heap_get (links init_untimed_second) 1 = Some ?L2"
    and g5: "heap_get (links init_untimed_second) 0 = Some ?R2"
    and g3: "heap_get (events init_untimed_second) 1 = Some Event_ctor"
    and g0: "heap_get (events init_untimed_second) 0 = Some ?e0"
    and gq: "heap_get (queues init_untimed_second) 1 = Some ?q"
    by (simp_all add: init_untimed_second_def init_untimed_def heap_get_def)
  have g2: "mode ?L2 \<noteq> RUN" and gs: "send_queue ?L2 = Some 1" and g6: "pair_link ?R2 = Some 1"
    by (simp_all add: Link_ctor_def)
  have g4: "send_queue ?L2 = None \<and> ?q = InitQueue_ctor
            \<or> (\<exists>qa. send_queue ?L2 = Some qa
                  \<and> heap_get (queues init_untimed_second) qa = Some ?q)"
    using gs gq by blast
  have g7: "admission_time (kind ?q) init_untimed_second \<le> untimed_phase init_untimed_second + 1"
    by (simp add: admission_time_def InitQueue_ctor_def init_untimed_second_def init_untimed_def)
  have g8: "kind ?q = TimeVortex \<longrightarrow>
      \<not> list_ex (\<lambda>a. heap_get (events init_untimed_second) a = None) (items ?q)"
    by (simp add: InitQueue_ctor_def)
  have second: "\<exists>s1 q1 t1 t2. sendUntimedData 1 (Some 1) init_untimed_second = (Inr (), s1)
         \<and> heap_get (queues s1) 1 = Some q1 \<and> items q1 = [0, 1]
         \<and> untimed_msg_count s1 = 2
         \<and> recvUntimedData 0 (s1\<lparr>untimed_phase := 1\<rparr>) = (Inr (Some 0), t1)
         \<and> recvUntimedData 0 t1 = (Inr (Some 1), t2)
         \<and> recvUntimedData 0 t2 = (Inr None, t2)"
  proof -
    note T = untimed_send_then_recv [OF g1 g2 g3 g4 g7 g8 g5 g6]
    from T [THEN conjunct1]
    obtain s1 e1 qa q1 where r: "sendUntimedData 1 (Some 1) init_untimed_second = (Inr (), s1)"
      "send_queue ?L2 \<noteq> None \<longrightarrow> send_queue ?L2 = Some qa"
      "heap_get (links s1) 1 = Some (?L2\<lparr>send_queue := Some qa\<rparr>)"
      "\<forall>a. a \<noteq> 1 \<longrightarrow> heap_get (links s1) a = heap_get (links init_untimed_second) a"
      "heap_get (queues s1) qa = Some q1"
      "kind ?q \<noteq> TimeVortex \<longrightarrow> items q1 = items ?q @ [1]"
      "untimed_msg_count s1 = untimed_msg_count init_untimed_second + 1"
      "heap_get (events s1) 1 = Some e1"
      "delivery_time e1 = untimed_phase init_untimed_second + 1"
      "\<forall>a. a \<noteq> 1 \<longrightarrow> heap_get (events s1) a = heap_get (events init_untimed_second) a"
      by (elim exE conjE) (rule that, assumption+)
    have qa: "qa = 1" using r(2) gs by simp
    have q1: "heap_get (queues s1) 1 = Some q1" using r(5) qa by simp
    have it: "items q1 = [0, 1]" using r(6) by (simp add: InitQueue_ctor_def)
    have c: "untimed_msg_count s1 = 2"
      using r(7) by (simp add: init_untimed_second_def init_untimed_def)
    have L1: "heap_get (links s1) 1 = Some ?L2" using r(3) qa by simp
    have R1: "heap_get (links s1) 0 = Some ?R2" using r(4) g5 by simp
    have e0: "heap_get (events s1) 0 = Some ?e0" using r(10) g0 by simp
    have t0: "delivery_time ?e0 = 1"
      by (simp add: setDeliveryInfo_def setDeliveryTime_def setOrderTag_def)
    have t1: "delivery_time e1 = 1"
      using r(9) by (simp add: init_untimed_second_def init_untimed_def)
    have lt: "1 < length (queues s1)" using q1 by (rule heap_get_Some_less)
    let ?t0 = "s1\<lparr>untimed_phase := 1\<rparr>"
    let ?t1 = "?t0\<lparr>queues := heap_set 1 (q1\<lparr>items := [1]\<rparr>) (queues ?t0)\<rparr>"
    let ?t2 = "?t1\<lparr>queues := heap_set 1 (q1\<lparr>items := [1], items := []\<rparr>) (queues ?t1)\<rparr>"
    have a0: "heap_get (links ?t0) 0 = Some ?R2 \<and> pair_link ?R2 = Some 1
              \<and> heap_get (links ?t0) 1 = Some ?L2"
      and b0: "send_queue ?L2 = Some 1 \<and> heap_get (queues ?t0) 1 = Some q1"
      and c0: "items q1 = 0 # [1] \<and> heap_get (events ?t0) 0 = Some ?e0"
      using L1 R1 g6 gs q1 it e0 by simp_all
    have a1: "heap_get (links ?t1) 0 = Some ?R2 \<and> pair_link ?R2 = Some 1
              \<and> heap_get (links ?t1) 1 = Some ?L2"
      and b1: "send_queue ?L2 = Some 1 \<and> heap_get (queues ?t1) 1 = Some (q1\<lparr>items := [1]\<rparr>)"
      and c1: "items (q1\<lparr>items := [1]\<rparr>) = 1 # [] \<and> heap_get (events ?t1) 1 = Some e1"
      using L1 R1 g6 gs lt r(8) by (simp_all add: heap_get_heap_set)
    have a2: "heap_get (links ?t2) 0 = Some ?R2 \<and> pair_link ?R2 = Some 1
              \<and> heap_get (links ?t2) 1 = Some ?L2"
      and b2: "send_queue ?L2 = Some 1
               \<and> heap_get (queues ?t2) 1 = Some (q1\<lparr>items := [1], items := []\<rparr>)"
      and c2: "items (q1\<lparr>items := [1], items := []\<rparr>) = []"
      using L1 R1 g6 gs lt by (simp_all add: heap_get_heap_set)
    from untimed_send_then_recv [where t = ?t0 and r' = 0 and R' = ?R2 and l' = 1 and L' = ?L2,
            OF g1 g2 g3 g4 g7 g8 g5 g6, THEN conjunct2, THEN mp, OF a0, THEN conjunct2, THEN spec, THEN spec, THEN mp, OF b0,
            THEN conjunct2, THEN spec, THEN spec, THEN spec, THEN mp, OF c0]
    have x0: "recvUntimedData 0 ?t0 = (Inr (Some 0), ?t1)" using t0 by simp
    from untimed_send_then_recv [where t = ?t1 and r' = 0 and R' = ?R2 and l' = 1 and L' = ?L2,
            OF g1 g2 g3 g4 g7 g8 g5 g6, THEN conjunct2, THEN mp, OF a1, THEN conjunct2, THEN spec, THEN spec, THEN mp, OF b1,
            THEN conjunct2, THEN spec, THEN spec, THEN spec, THEN mp, OF c1]
    have x1: "recvUntimedData 0 ?t1 = (Inr (Some 1), ?t2)" using t1 by simp
    from untimed_send_then_recv [where t = ?t2 and r' = 0 and R' = ?R2 and l' = 1 and L' = ?L2,
            OF g1 g2 g3 g4 g7 g8 g5 g6, THEN conjunct2, THEN mp, OF a2, THEN conjunct2, THEN spec, THEN spec, THEN mp, OF b2,
            THEN conjunct1, THEN mp, OF c2]
    have x2: "recvUntimedData 0 ?t2 = (Inr None, ?t2)" .
    from r(1) q1 it c x0 x1 x2 show ?thesis by blast
  qed
  from h1 h5 h4 h8 first g1 g5 gq g3 g7 second show ?thesis
    apply -
    apply (intro conjI)
    apply assumption+
    done
qed


section \<open>Properties of the configuration for the run phase\<close>

text \<open>
  The release step of \<^verbatim>\<open>finalizeConfiguration\<close> never changes the state: its body runs only
  when the pointer is null, where \<^verbatim>\<open>delete\<close> and the assignment of \<^verbatim>\<open>nullptr\<close> do nothing.
\<close>

lemma release_init_queue_noop:
  "heap_get (links s) pa = Some P \<Longrightarrow> release_init_queue pa s = (Inr (), s)"
  by (auto simp: release_init_queue_def delete_queue_def upd_link_id)

lemma install_run_queue_fields [simp]:
  "events (install_run_queue ty pa s) = events s"
  "timeVortex (install_run_queue ty pa s) = timeVortex s"
  "currentSimCycle (install_run_queue ty pa s) = currentSimCycle s"
  "untimed_phase (install_run_queue ty pa s) = untimed_phase s"
  "untimed_msg_count (install_run_queue ty pa s) = untimed_msg_count s"
  "profile_log (install_run_queue ty pa s) = profile_log s"
  "length (links (install_run_queue ty pa s)) = length (links s)"
  by (simp_all add: install_run_queue_def heap_new_def)

lemma queues_install_run_queue:
  "queues (install_run_queue ty pa s)
     = (if ty = POLL then queues s @ [Some PollingLinkQueue_ctor] else queues s)"
  by (auto simp add: install_run_queue_def heap_new_def)

lemma links_install_run_queue:
  "heap_get (links (install_run_queue ty pa s)) a
     = (if a = pa \<and> ty = HANDLER
          then map_option (\<lambda>L. L\<lparr>send_queue := timeVortex s\<rparr>) (heap_get (links s) a)
        else if a = pa \<and> ty = POLL
          then map_option (\<lambda>L. L\<lparr>send_queue := Some (length (queues s))\<rparr>)
                 (heap_get (links s) a)
        else heap_get (links s) a)"
  by (auto simp add: install_run_queue_def heap_new_def links_upd_link getTimeVortex_def)

lemma link_after_install:
  "heap_get (links s) a = Some X \<Longrightarrow>
     \<exists>X'. heap_get (links (install_run_queue ty pa s)) a = Some X'
       \<and> type X' = type X \<and> pair_link X' = pair_link X \<and> mode X' = mode X"
  by (cases ty; cases "a = pa") (auto simp: links_install_run_queue)

lemma finalizeConfiguration_SYNC:
  "heap_get (links s) l = Some L \<Longrightarrow> type L = SYNC
     \<Longrightarrow> finalizeConfiguration (Suc n) l s
           = Some (Inr (), upd_link l (\<lambda>L. L\<lparr>mode := RUN\<rparr>) s)"
  by (simp add: finalizeConfiguration.simps)

lemma finalizeConfiguration_depth:
  "finalizeConfiguration (Suc (Suc n)) l s = finalizeConfiguration (Suc (Suc 0)) l s"
  by (subst (1 2) finalizeConfiguration.simps(2))
     (auto simp: Let_def finalizeConfiguration_SYNC split: option.splits prod.splits sum.splits)

lemma finalizeConfiguration_returns:
  "finalizeConfiguration (Suc (Suc n)) l s \<noteq> None"
  by (subst finalizeConfiguration.simps(2))
     (auto simp: Let_def finalizeConfiguration_SYNC split: option.splits prod.splits sum.splits)

text \<open>The result of a call on a link that is not a sync link and whose pair is live.\<close>

lemma finalizeConfiguration_ok:
  assumes L: "heap_get (links s) l = Some L" and ns: "type L \<noteq> SYNC"
    and pa: "pair_link L = Some pa" and P: "heap_get (links s) pa = Some P"
  shows "finalizeConfiguration (Suc (Suc n)) l s
     = Some (Inr (), (if type P = SYNC then upd_link pa (\<lambda>L. L\<lparr>mode := RUN\<rparr>) else id)
          (install_run_queue (type L) pa (upd_link l (\<lambda>L. L\<lparr>mode := RUN\<rparr>) s)))"
proof -
  let ?s1 = "upd_link l (\<lambda>L. L\<lparr>mode := RUN\<rparr>) s"
  from link_after_mode_update [OF P]
  obtain P1 where P1: "heap_get (links ?s1) pa = Some P1" "type P1 = type P"
    by blast
  let ?s3 = "install_run_queue (type L) pa ?s1"
  from link_after_install [OF P1(1)]
  obtain P3 where P3: "heap_get (links ?s3) pa = Some P3" "type P3 = type P"
    using P1(2) by metis
  show ?thesis
    apply (subst finalizeConfiguration.simps(2))
    using L ns pa P1 P3
    by (auto simp: Let_def release_init_queue_noop finalizeConfiguration_SYNC)
qed

lemma finalizeConfiguration_ok_cases:
  assumes ok: "finalizeConfiguration (Suc (Suc n)) l s = Some (Inr (), s1)"
  obtains L where "heap_get (links s) l = Some L" "type L = SYNC"
      "s1 = upd_link l (\<lambda>L. L\<lparr>mode := RUN\<rparr>) s"
  | L pa P where "heap_get (links s) l = Some L" "type L \<noteq> SYNC" "pair_link L = Some pa"
      "heap_get (links s) pa = Some P"
      "s1 = (if type P = SYNC then upd_link pa (\<lambda>L. L\<lparr>mode := RUN\<rparr>) else id)
          (install_run_queue (type L) pa (upd_link l (\<lambda>L. L\<lparr>mode := RUN\<rparr>) s))"
proof -
  from ok obtain L where L: "heap_get (links s) l = Some L"
    by (subst (asm) finalizeConfiguration.simps(2)) (auto split: option.splits)
  show thesis
  proof (cases "type L = SYNC")
    case True
    with ok L that(1) show thesis by (simp add: finalizeConfiguration_SYNC)
  next
    case False
    from ok L False obtain pa where pa: "pair_link L = Some pa"
      by (subst (asm) finalizeConfiguration.simps(2)) (auto simp: Let_def split: option.splits)
    have "heap_get (links s) pa \<noteq> None"
    proof
      assume "heap_get (links s) pa = None"
      then have "heap_get (links (upd_link l (\<lambda>L. L\<lparr>mode := RUN\<rparr>) s)) pa = None"
        using L by (auto simp: links_upd_link)
      then have "release_init_queue pa (upd_link l (\<lambda>L. L\<lparr>mode := RUN\<rparr>) s)
           = (Inl InvalidPointer, upd_link l (\<lambda>L. L\<lparr>mode := RUN\<rparr>) s)"
        by (simp add: release_init_queue_def)
      with ok L False pa show False
        by (subst (asm) finalizeConfiguration.simps(2)) (simp add: Let_def)
    qed
    then obtain P where P: "heap_get (links s) pa = Some P" by blast
    from finalizeConfiguration_ok [OF L False pa P, of n] ok that(2) [OF L False pa P]
    show thesis by simp
  qed
qed

text \<open>
  The recursion is entered exactly when the link is not a sync link and its pair is one:
  only then does depth 1 not suffice.
\<close>

lemma finalizeConfiguration_recursion:
  "finalizeConfiguration (Suc 0) l s = None \<longleftrightarrow>
     (\<exists>L pa P. heap_get (links s) l = Some L \<and> type L \<noteq> SYNC \<and> pair_link L = Some pa
        \<and> heap_get (links s) pa = Some P \<and> type P = SYNC)"
proof (cases "heap_get (links s) l")
  case None
  then show ?thesis by (simp add: finalizeConfiguration.simps)
next
  case (Some L)
  show ?thesis
  proof (cases "type L = SYNC")
    case True
    with Some show ?thesis by (simp add: finalizeConfiguration_SYNC)
  next
    case ns: False
    show ?thesis
    proof (cases "pair_link L")
      case None
      with Some ns show ?thesis by (simp add: finalizeConfiguration.simps Let_def)
    next
      case pa: (Some pa)
      let ?s1 = "upd_link l (\<lambda>L. L\<lparr>mode := RUN\<rparr>) s"
      show ?thesis
      proof (cases "heap_get (links s) pa")
        case None
        then have "heap_get (links ?s1) pa = None"
          using Some by (auto simp: links_upd_link)
        then have "release_init_queue pa ?s1 = (Inl InvalidPointer, ?s1)"
          by (simp add: release_init_queue_def)
        with Some ns pa None show ?thesis
          by (simp add: finalizeConfiguration.simps Let_def)
      next
        case P: (Some P)
        from link_after_mode_update [OF P, of l RUN]
        obtain P1 where P1: "heap_get (links ?s1) pa = Some P1" "type P1 = type P" by blast
        from link_after_install [OF P1(1), of "type L" pa]
        obtain P3 where P3: "heap_get (links (install_run_queue (type L) pa ?s1)) pa = Some P3"
          "type P3 = type P" using P1(2) by metis
        from Some ns pa P P1 P3 show ?thesis
          by (auto simp: finalizeConfiguration.simps Let_def release_init_queue_noop)
      qed
    qed
  qed
qed

subsection \<open>A second call\<close>

lemma finalize_step_idem:
  fixes s :: "'t::len Simulation_impl"
  assumes L: "heap_get (links s) l = Some L" and P: "heap_get (links s) pa = Some P"
    and np: "ty \<noteq> POLL"
  defines "F \<equiv> \<lambda>s :: 't Simulation_impl.
          (if type P = SYNC then upd_link pa (\<lambda>L. L\<lparr>mode := RUN\<rparr>) else id)
          (install_run_queue ty pa (upd_link l (\<lambda>L. L\<lparr>mode := RUN\<rparr>) s))"
  shows "F (F s) = F s"
proof (rule Simulation_eqI)
  show "queues (F (F s)) = queues (F s)"
    using np by (simp add: F_def queues_install_run_queue)
  show "length (links (F (F s))) = length (links (F s))"
    by (simp add: F_def)
  show "heap_get (links (F (F s))) a = heap_get (links (F s)) a" for a
    using L P np
    by (cases "a = l"; cases "a = pa"; cases "type P = SYNC"; cases "ty = HANDLER")
       (simp_all add: F_def links_upd_link links_install_run_queue)
qed (simp_all add: F_def)

lemma finalize_step_links_modulo_queue:
  fixes s :: "'t::len Simulation_impl" and ty :: Type_t
  assumes L: "heap_get (links s) l = Some L" and P: "heap_get (links s) pa = Some P"
  defines "F \<equiv> \<lambda>s :: 't Simulation_impl.
          (if type P = SYNC then upd_link pa (\<lambda>L. L\<lparr>mode := RUN\<rparr>) else id)
          (install_run_queue ty pa (upd_link l (\<lambda>L. L\<lparr>mode := RUN\<rparr>) s))"
  shows "map_option (\<lambda>X. X\<lparr>send_queue := None\<rparr>) (heap_get (links (F (F s))) a)
       = map_option (\<lambda>X. X\<lparr>send_queue := None\<rparr>) (heap_get (links (F s)) a)"
  using L P
  by (cases "a = l"; cases "a = pa"; cases "type P = SYNC"; cases ty)
     (simp_all add: F_def links_upd_link links_install_run_queue)

lemma finalizeConfiguration_idempotent:
  assumes ok: "finalizeConfiguration (Suc (Suc n)) l s = Some (Inr (), s1)"
  shows "\<exists>s2. finalizeConfiguration (Suc (Suc n)) l s1 = Some (Inr (), s2)
     \<and> (\<forall>a. map_option (\<lambda>X. X\<lparr>send_queue := None\<rparr>) (heap_get (links s2) a)
            = map_option (\<lambda>X. X\<lparr>send_queue := None\<rparr>) (heap_get (links s1) a))
     \<and> ((\<forall>L. heap_get (links s) l = Some L \<longrightarrow> type L \<noteq> POLL) \<longrightarrow> s2 = s1)"
  using ok
proof (cases rule: finalizeConfiguration_ok_cases)
  case (1 L)
  have "heap_get (links s1) l = Some (L\<lparr>mode := RUN\<rparr>)"
    using 1 by (simp add: links_upd_link)
  then have "finalizeConfiguration (Suc (Suc n)) l s1 = Some (Inr (), s1)"
    using 1 by (simp add: finalizeConfiguration_SYNC upd_link_id)
  then show ?thesis by simp
next
  case (2 L pa P)
  let ?F = "\<lambda>s :: 'a Simulation_impl.
          (if type P = SYNC then upd_link pa (\<lambda>L. L\<lparr>mode := RUN\<rparr>) else id)
          (install_run_queue (type L) pa (upd_link l (\<lambda>L. L\<lparr>mode := RUN\<rparr>) s))"
  have keep: "\<exists>X'. heap_get (links s1) a = Some X' \<and> type X' = type X
                 \<and> pair_link X' = pair_link X"
    if "heap_get (links s) a = Some X" for a X
  proof -
    from link_after_mode_update [OF that, of l RUN] obtain X1 where
      X1: "heap_get (links (upd_link l (\<lambda>L. L\<lparr>mode := RUN\<rparr>) s)) a = Some X1"
        "type X1 = type X" "pair_link X1 = pair_link X" by blast
    from link_after_install [OF X1(1), of "type L" pa] obtain X2 where
      X2: "heap_get (links (install_run_queue (type L) pa
             (upd_link l (\<lambda>L. L\<lparr>mode := RUN\<rparr>) s))) a = Some X2"
        "type X2 = type X1" "pair_link X2 = pair_link X1" by blast
    show ?thesis
    proof (cases "type P = SYNC")
      case True
      from link_after_mode_update [OF X2(1), of pa RUN] X1 X2 True show ?thesis
        by (auto simp: 2(5))
    next
      case False
      with X1 X2 show ?thesis by (simp add: 2(5))
    qed
  qed
  from keep [OF 2(1)] obtain L1 where L1: "heap_get (links s1) l = Some L1"
    "type L1 = type L" "pair_link L1 = pair_link L" by blast
  from keep [OF 2(4)] obtain P1 where P1: "heap_get (links s1) pa = Some P1"
    "type P1 = type P" by blast
  have "finalizeConfiguration (Suc (Suc n)) l s1 = Some (Inr (), ?F s1)"
    using finalizeConfiguration_ok [OF L1(1) _ _ P1(1), of n] L1 P1 2 by simp
  moreover have "map_option (\<lambda>X. X\<lparr>send_queue := None\<rparr>) (heap_get (links (?F s1)) a)
            = map_option (\<lambda>X. X\<lparr>send_queue := None\<rparr>) (heap_get (links s1) a)" for a
    unfolding 2(5) by (rule finalize_step_links_modulo_queue [OF 2(1) 2(4)])
  moreover have "?F s1 = s1" if "type L \<noteq> POLL"
    unfolding 2(5) using that by (rule finalize_step_idem [OF 2(1) 2(4)])
  ultimately show ?thesis using 2(1) by auto
qed


text \<open>
  C8 does not hold as it is stated: the traversal is not idempotent on a polling link.
  From \<open>polling_half\<close>, \<^verbatim>\<open>finalizeConfiguration\<close> on link 1 gives \<open>polling_run\<close>, where the
  pair, link 0, has the polling queue at address 2. A second call on link 1 returns
  normally in another state: it has allocated a further polling queue, at address 3, and
  has made the send queue of link 0 point to it, while the queue at address 2 stays
  allocated with no link pointing to it.
\<close>

theorem finalizeConfiguration_second_call_differs:
  "finalizeConfiguration (Suc (Suc 0)) 1 polling_half = Some (Inr (), polling_run)
   \<and> finalizeConfiguration (Suc (Suc 0)) 1 polling_run = Some (Inr (), polling_run_again)
   \<and> polling_run_again \<noteq> polling_run
   \<and> map_option send_queue (heap_get (links polling_run) 0) = Some (Some 2)
   \<and> map_option send_queue (heap_get (links polling_run_again) 0) = Some (Some 3)
   \<and> map_option send_queue (heap_get (links polling_run_again) 1) = Some (Some 1)
   \<and> heap_get (queues polling_run) 3 = None
   \<and> heap_get (queues polling_run_again) 3 = Some PollingLinkQueue_ctor
   \<and> heap_get (queues polling_run_again) 2 = Some PollingLinkQueue_ctor"
proof -
  have a: "finalizeConfiguration (Suc (Suc 0)) 1 polling_half = Some (Inr (), polling_run)"
    by (simp add: finalizeConfiguration.simps polling_half_def polling_run_def eval_defs)
  have b: "finalizeConfiguration (Suc (Suc 0)) 1 polling_run = Some (Inr (), polling_run_again)"
    by (simp add: finalizeConfiguration.simps polling_run_again_def polling_run_def eval_defs)
  have "queues polling_run_again \<noteq> queues polling_run"
    by (simp add: polling_run_again_def polling_run_def)
  then have c: "polling_run_again \<noteq> polling_run" by auto
  have d: "map_option send_queue (heap_get (links polling_run) 0) = Some (Some 2)"
    "map_option send_queue (heap_get (links polling_run_again) 0) = Some (Some 3)"
    "map_option send_queue (heap_get (links polling_run_again) 1) = Some (Some 1)"
    "heap_get (queues polling_run) 3 = None"
    "heap_get (queues polling_run_again) 3 = Some PollingLinkQueue_ctor"
    "heap_get (queues polling_run_again) 2 = Some PollingLinkQueue_ctor"
    by (simp_all add: polling_run_again_def polling_run_def heap_get_def)
  from a b c d show ?thesis by simp
qed

text \<open>
  C8, amended. \<^verbatim>\<open>finalizeConfiguration\<close> returns for every state and every link, whatever
  the pairing (a link that is its own pair, two links paired with each other, two sync
  links): a recursion depth of 2 always suffices and a larger bound gives the same result.
  The call on the pair link is made exactly when the link is not a sync link and its pair
  is one, and a sync link returns without a further call. After a call that returned
  normally, a second call returns normally too and leaves every field of every link but
  \<^verbatim>\<open>send_queue\<close> as the first call left it; unless the link is a polling link, which gives
  its pair a new polling queue at each call, the second call leaves the whole state
  unchanged.
\<close>

theorem finalizeConfiguration_terminates:
  fixes s :: "'t::len Simulation_impl"
  shows "(\<exists>r. finalizeConfiguration (Suc (Suc n)) l s = Some r)
       \<and> finalizeConfiguration (Suc (Suc n)) l s = finalizeConfiguration (Suc (Suc 0)) l s
       \<and> (finalizeConfiguration (Suc 0) l s = None \<longleftrightarrow>
            (\<exists>L pa P. heap_get (links s) l = Some L \<and> type L \<noteq> SYNC \<and> pair_link L = Some pa
               \<and> heap_get (links s) pa = Some P \<and> type P = SYNC))
       \<and> (\<forall>s1. finalizeConfiguration (Suc (Suc n)) l s = Some (Inr (), s1) \<longrightarrow>
            (\<exists>s2. finalizeConfiguration (Suc (Suc n)) l s1 = Some (Inr (), s2)
               \<and> (\<forall>a. map_option (\<lambda>X. X\<lparr>send_queue := None\<rparr>) (heap_get (links s2) a)
                      = map_option (\<lambda>X. X\<lparr>send_queue := None\<rparr>) (heap_get (links s1) a))
               \<and> ((\<forall>L. heap_get (links s) l = Some L \<longrightarrow> type L \<noteq> POLL) \<longrightarrow> s2 = s1)))"
proof (intro conjI allI impI)
  show "\<exists>r. finalizeConfiguration (Suc (Suc n)) l s = Some r"
    using finalizeConfiguration_returns [of n l s] by blast
  show "finalizeConfiguration (Suc (Suc n)) l s = finalizeConfiguration (Suc (Suc 0)) l s"
    by (rule finalizeConfiguration_depth)
  show "finalizeConfiguration (Suc 0) l s = None \<longleftrightarrow>
            (\<exists>L pa P. heap_get (links s) l = Some L \<and> type L \<noteq> SYNC \<and> pair_link L = Some pa
               \<and> heap_get (links s) pa = Some P \<and> type P = SYNC)"
    by (rule finalizeConfiguration_recursion)
  show "\<exists>s2. finalizeConfiguration (Suc (Suc n)) l s1 = Some (Inr (), s2)
               \<and> (\<forall>a. map_option (\<lambda>X. X\<lparr>send_queue := None\<rparr>) (heap_get (links s2) a)
                      = map_option (\<lambda>X. X\<lparr>send_queue := None\<rparr>) (heap_get (links s1) a))
               \<and> ((\<forall>L. heap_get (links s) l = Some L \<longrightarrow> type L \<noteq> POLL) \<longrightarrow> s2 = s1)"
    if "finalizeConfiguration (Suc (Suc n)) l s = Some (Inr (), s1)" for s1
    using that by (rule finalizeConfiguration_idempotent)
qed

theorem finalizeConfiguration_terminates_witness:
  "finalizeConfiguration (Suc 0) 0 handler_sync_pair = None
   \<and> finalizeConfiguration (Suc (Suc 0)) 0 handler_sync_pair = Some (Inr (), handler_sync_run)
   \<and> finalizeConfiguration (Suc (Suc (Suc 0))) 0 handler_sync_pair
       = Some (Inr (), handler_sync_run)
   \<and> finalizeConfiguration (Suc (Suc 0)) 0 handler_sync_run = Some (Inr (), handler_sync_run)"
proof -
  have run: "finalizeConfiguration (Suc (Suc 0)) 0 handler_sync_pair
               = Some (Inr (), handler_sync_run)"
    by (simp add: finalizeConfiguration.simps handler_sync_pair_def handler_sync_run_def
        eval_defs)
  have pair: "\<exists>L pa P. heap_get (links handler_sync_pair) 0 = Some L \<and> type L \<noteq> SYNC
      \<and> pair_link L = Some pa \<and> heap_get (links handler_sync_pair) pa = Some P \<and> type P = SYNC"
    by (simp add: handler_sync_pair_def heap_get_def)
  have kind: "\<forall>L. heap_get (links handler_sync_pair) 0 = Some L \<longrightarrow> type L \<noteq> POLL"
    by (simp add: handler_sync_pair_def heap_get_def)
  note deep = finalizeConfiguration_terminates [of "Suc 0" 0 handler_sync_pair]
  note two = finalizeConfiguration_terminates [of 0 0 handler_sync_pair]
  from deep have d3: "finalizeConfiguration (Suc (Suc (Suc 0))) 0 handler_sync_pair
      = finalizeConfiguration (Suc (Suc 0)) 0 handler_sync_pair"
    by (elim conjE)
  from two pair have d1: "finalizeConfiguration (Suc 0) 0 handler_sync_pair = None"
    by (elim conjE) blast
  from two run kind
  have "\<exists>s2. finalizeConfiguration (Suc (Suc 0)) 0 handler_sync_run = Some (Inr (), s2)
           \<and> s2 = handler_sync_run"
    by (elim conjE) blast
  with run d3 d1 show ?thesis by simp
qed

text \<open>
  C3 is not what the code does. In the state \<open>init_queue_left\<close> the pair of link 0 still
  has its init queue, at address 1. \<^verbatim>\<open>finalizeConfiguration\<close> on link 0 installs the time
  vortex over the pointer; the init queue is neither deleted (it is still allocated, with
  its event) nor is the pointer cleared first: the test guarding the release is
  \<^verbatim>\<open>nullptr == pair_link->send_queue\<close>.
\<close>

theorem finalizeConfiguration_keeps_init_queue:
  "map_option send_queue (heap_get (links init_queue_left) 1) = Some (Some 1)
   \<and> heap_get (queues init_queue_left) 1 = Some (InitQueue_ctor\<lparr>items := [0]\<rparr>)
   \<and> finalizeConfiguration (Suc (Suc 0)) 0 init_queue_left = Some (Inr (), init_queue_left_run)
   \<and> heap_get (queues init_queue_left_run) 1 = Some (InitQueue_ctor\<lparr>items := [0]\<rparr>)
   \<and> map_option send_queue (heap_get (links init_queue_left_run) 1) = Some (Some 0)"
  by (simp add: finalizeConfiguration.simps init_queue_left_def init_queue_left_run_def
      eval_defs)

section \<open>Properties of the timed receive\<close>

text \<open>
  C4 is not what the code does: \<^verbatim>\<open>recv\<close> checks the kind of the link and never its mode.
  On the polling link 0 in mode \<open>COMPLETE\<close>, whose pair has sent untimed data, \<^verbatim>\<open>recv\<close>
  returns that event; on the polling link 0 in mode \<open>INIT\<close> it returns null. Neither call
  is fatal.
\<close>

theorem recv_outside_run_not_fatal:
  "map_option mode (heap_get (links complete_untimed) 0) = Some COMPLETE
   \<and> map_option type (heap_get (links complete_untimed) 0) = Some POLL
   \<and> recv 0 complete_untimed
       = (Inr (Some 0),
          complete_untimed\<lparr>queues := [Some TimeVortex_ctor, None, None, Some InitQueue_ctor]\<rparr>)
   \<and> map_option mode (heap_get (links init_untimed) 0) = Some INIT
   \<and> map_option type (heap_get (links init_untimed) 0) = Some POLL
   \<and> recv 0 init_untimed = (Inr None, init_untimed)"
  by (simp add: recv_def complete_untimed_def init_untimed_def eval_defs setDeliveryInfo_def
      setDeliveryTime_def setOrderTag_def Event_ctor_def setPriority_def)


section \<open>Properties of the preparation for the complete phase\<close>

lemma prepareForComplete_SYNC:
  "heap_get (links s) l = Some L \<Longrightarrow> type L = SYNC
     \<Longrightarrow> prepareForComplete (Suc n) l s
           = Some (Inr (), upd_link l (\<lambda>L. L\<lparr>mode := COMPLETE\<rparr>) s)"
  by (simp add: prepareForComplete.simps)

lemma delete_queue_ok:
  "p = None \<or> (\<exists>qa q. p = Some qa \<and> heap_get (queues s) qa = Some q) \<Longrightarrow>
    delete_queue p s
      = (Inr (), (case p of None \<Rightarrow> s | Some qa \<Rightarrow> s\<lparr>queues := heap_free qa (queues s)\<rparr>))"
  by (auto simp: delete_queue_def)

lemma prepareForComplete_ok:
  fixes s :: "'t::len Simulation_impl"
  assumes L: "heap_get (links s) l = Some L" and ns: "type L \<noteq> SYNC"
    and pa: "pair_link L = Some pa" and P: "heap_get (links s) pa = Some P"
    and q: "type L = POLL \<longrightarrow> send_queue P = None
              \<or> (\<exists>qa q. send_queue P = Some qa \<and> heap_get (queues s) qa = Some q)"
  shows "\<exists>s' L' P'. prepareForComplete (Suc (Suc n)) l s = Some (Inr (), s')
         \<and> heap_get (links s') l = Some L' \<and> mode L' = COMPLETE
         \<and> heap_get (links s') pa = Some P' \<and> send_queue P' = None
         \<and> (type L = POLL \<longrightarrow> (\<forall>qa. send_queue P = Some qa \<longrightarrow> heap_get (queues s') qa = None))
         \<and> (type L \<noteq> POLL \<longrightarrow> queues s' = queues s)"
proof -
  let ?s1 = "upd_link l (\<lambda>L. L\<lparr>mode := COMPLETE\<rparr>) s"
  from link_after_mode_update [OF P, of l COMPLETE]
  obtain P1 where P1: "heap_get (links ?s1) pa = Some P1" "type P1 = type P"
     "send_queue P1 = send_queue P" by blast
  have L1: "heap_get (links ?s1) l = Some (L\<lparr>mode := COMPLETE\<rparr>)"
    using L by (simp add: links_upd_link)
  define s2 where "s2 = (if type L = POLL
       then (case send_queue P of None \<Rightarrow> ?s1
             | Some qa \<Rightarrow> ?s1\<lparr>queues := heap_free qa (queues ?s1)\<rparr>)
       else ?s1)"
  have del: "(if POLL = type L then delete_queue (send_queue P1) ?s1 else (Inr (), ?s1))
               = (Inr (), s2)"
    using q P1(3) by (auto simp: s2_def delete_queue_ok)
  have links2: "links s2 = links ?s1"
    by (simp add: s2_def split: option.splits)
  let ?s3 = "upd_link pa (\<lambda>L. L\<lparr>send_queue := None\<rparr>) s2"
  have P3: "heap_get (links ?s3) pa = Some (P1\<lparr>send_queue := None\<rparr>)"
    using P1 by (simp add: links_upd_link links2)
  have L3: "\<exists>L3. heap_get (links ?s3) l = Some L3 \<and> mode L3 = COMPLETE"
    using L1 by (cases "pa = l") (auto simp: links_upd_link links2)
  have q3: "type L = POLL \<Longrightarrow> send_queue P = Some qa \<Longrightarrow> heap_get (queues ?s3) qa = None"
    for qa
    by (simp add: s2_def heap_get_heap_free)
  have q3': "type L \<noteq> POLL \<Longrightarrow> queues ?s3 = queues s"
    by (simp add: s2_def)
  show ?thesis
  proof (cases "type P = SYNC")
    case True
    let ?s4 = "upd_link pa (\<lambda>L. L\<lparr>mode := COMPLETE\<rparr>) ?s3"
    have run: "prepareForComplete (Suc (Suc n)) l s = Some (Inr (), ?s4)"
      apply (subst prepareForComplete.simps(2))
      using L ns pa P1 del P3 True
      by (simp add: Let_def prepareForComplete_SYNC)
    have "\<exists>P4. heap_get (links ?s4) pa = Some P4 \<and> send_queue P4 = None"
      using link_after_mode_update [OF P3, of pa COMPLETE] by auto
    moreover have "\<exists>L4. heap_get (links ?s4) l = Some L4 \<and> mode L4 = COMPLETE"
      using L3 mode_after_mode_update [of ?s3 l _ COMPLETE pa] by blast
    ultimately show ?thesis using run q3 q3' by auto
  next
    case False
    have run: "prepareForComplete (Suc (Suc n)) l s = Some (Inr (), ?s3)"
      apply (subst prepareForComplete.simps(2))
      using L ns pa P1 del P3 False
      by (simp add: Let_def)
    show ?thesis using run P3 L3 q3 q3' by auto
  qed
qed

text \<open>
  C7. A call of \<^verbatim>\<open>prepareForComplete\<close> on a sync link changes the mode of that link to
  \<open>COMPLETE\<close> and nothing else, so no queue wiring. On a link of another kind whose pair
  is live (and, for a polling link, whose pair's send queue is null or a live queue) the
  call returns normally; afterwards the link's mode is \<open>COMPLETE\<close> and the pair link's
  send queue is null; for a polling link the queue that the pair's send queue pointed to
  has been destroyed; for the other kinds no queue is touched.
\<close>

theorem prepareForComplete_clears_pair_queue:
  fixes s :: "'t::len Simulation_impl"
  assumes "heap_get (links s) l = Some L"
  shows "(type L = SYNC \<longrightarrow>
            prepareForComplete (Suc n) l s
              = Some (Inr (), upd_link l (\<lambda>L. L\<lparr>mode := COMPLETE\<rparr>) s))
       \<and> (type L \<noteq> SYNC \<and> pair_link L = Some pa \<and> heap_get (links s) pa = Some P
            \<and> (type L = POLL \<longrightarrow> send_queue P = None
                 \<or> (\<exists>qa q. send_queue P = Some qa \<and> heap_get (queues s) qa = Some q))
          \<longrightarrow> (\<exists>s' L' P'. prepareForComplete (Suc (Suc n)) l s = Some (Inr (), s')
                 \<and> heap_get (links s') l = Some L' \<and> mode L' = COMPLETE
                 \<and> heap_get (links s') pa = Some P' \<and> send_queue P' = None
                 \<and> (type L = POLL \<longrightarrow>
                       (\<forall>qa. send_queue P = Some qa \<longrightarrow> heap_get (queues s') qa = None))
                 \<and> (type L \<noteq> POLL \<longrightarrow> queues s' = queues s)))"
  using assms prepareForComplete_SYNC [of s l L n] prepareForComplete_ok [of s l L pa P n]
  by blast

theorem prepareForComplete_clears_pair_queue_witness:
  "heap_get (links handler_sync_pair) 1 = Some ((Link_ctor 7)\<lparr>pair_link := Some 0, type := SYNC\<rparr>)
   \<and> prepareForComplete (Suc 0) 1 handler_sync_pair
       = Some (Inr (), upd_link 1 (\<lambda>L. L\<lparr>mode := COMPLETE\<rparr>) handler_sync_pair)
   \<and> heap_get (links polling_run) 0
       = Some ((Link_ctor 7)\<lparr>pair_link := Some 1, type := POLL, mode := RUN,
                 send_queue := Some 2\<rparr>)
   \<and> heap_get (links polling_run) 1
       = Some ((Link_ctor 7)\<lparr>pair_link := Some 0, type := POLL, mode := RUN,
                 send_queue := Some 1\<rparr>)
   \<and> heap_get (queues polling_run) 1 = Some PollingLinkQueue_ctor
   \<and> (\<exists>s' L' P'. prepareForComplete (Suc (Suc 0)) 0 polling_run = Some (Inr (), s')
         \<and> heap_get (links s') 0 = Some L' \<and> mode L' = COMPLETE
         \<and> heap_get (links s') 1 = Some P' \<and> send_queue P' = None
         \<and> heap_get (queues s') 1 = None)"
proof -
  let ?S = "(Link_ctor (7 :: 32 word))\<lparr>pair_link := Some 0, type := SYNC\<rparr>"
  let ?L = "(Link_ctor (7 :: 32 word))\<lparr>pair_link := Some 1, type := POLL, mode := RUN,
              send_queue := Some 2\<rparr>"
  let ?P = "(Link_ctor (7 :: 32 word))\<lparr>pair_link := Some 0, type := POLL, mode := RUN,
              send_queue := Some 1\<rparr>"
  have s1: "heap_get (links handler_sync_pair) 1 = Some ?S"
    by (simp add: handler_sync_pair_def heap_get_def)
  have s2: "type ?S = SYNC" by simp
  have h1: "heap_get (links polling_run) 0 = Some ?L"
    and h3: "heap_get (links polling_run) 1 = Some ?P"
    and h4: "heap_get (queues polling_run) 1 = Some PollingLinkQueue_ctor"
    by (simp_all add: polling_run_def heap_get_def)
  from prepareForComplete_clears_pair_queue [OF s1, of 0] s2
  have a: "prepareForComplete (Suc 0) 1 handler_sync_pair
       = Some (Inr (), upd_link 1 (\<lambda>L. L\<lparr>mode := COMPLETE\<rparr>) handler_sync_pair)"
    by blast
  have hyp: "type ?L \<noteq> SYNC \<and> pair_link ?L = Some 1 \<and> heap_get (links polling_run) 1 = Some ?P
      \<and> (type ?L = POLL \<longrightarrow> send_queue ?P = None
           \<or> (\<exists>qa q. send_queue ?P = Some qa \<and> heap_get (queues polling_run) qa = Some q))"
    using h3 h4 by simp
  from prepareForComplete_clears_pair_queue [OF h1, of 0 1 ?P, THEN conjunct2, THEN mp, OF hyp]
  obtain s' L' P' where r: "prepareForComplete (Suc (Suc 0)) 0 polling_run = Some (Inr (), s')"
    "heap_get (links s') 0 = Some L'" "mode L' = COMPLETE"
    "heap_get (links s') 1 = Some P'" "send_queue P' = None"
    "type ?L = POLL \<longrightarrow> (\<forall>qa. send_queue ?P = Some qa \<longrightarrow> heap_get (queues s') qa = None)"
    by blast
  from r(6) have "heap_get (queues s') 1 = None" by simp
  with r(1-5)
  have b: "\<exists>s' L' P'. prepareForComplete (Suc (Suc 0)) 0 polling_run = Some (Inr (), s')
         \<and> heap_get (links s') 0 = Some L' \<and> mode L' = COMPLETE
         \<and> heap_get (links s') 1 = Some P' \<and> send_queue P' = None
         \<and> heap_get (queues s') 1 = None"
    by blast
  from s1 a h1 h3 h4 b show ?thesis by blast
qed


end
